theory Spec2Isabelle
  imports Main
begin

section \<open>Supervision of the Q CLI child process (server/q-cli.js)\<close>

text \<open>
  The module keeps one process-wide map \<open>activeQProcesses\<close> from session identifiers to
  child-process handles and exports two operations, \<open>spawnQ\<close> and \<open>abortQSession\<close>.
  \<open>spawnQ\<close> runs synchronously up to the emission of the \<open>session-created\<close> message; after
  that the run is driven by the callbacks it registered on the child (\<open>data\<close> on both
  pipes, \<open>close\<close>, \<open>error\<close>). The model follows this shape: \<open>spawnQ\<close> is a function on an
  explicit state, each callback is a function on that state, and the sequence of
  notifications delivered by the runtime is a list that \<open>run_events\<close> folds over.
\<close>

subsection \<open>JavaScript strings, numbers and arrays\<close>

text \<open>
  Strings are lists of 8-bit characters, the code units below 256.
  \<open>String.prototype.trim\<close> removes white space at both ends; of JavaScript's white space
  the six ASCII characters and the no-break space U+00A0 are representable here. A
  string is falsy exactly when it is empty; \<open>undefined\<close> is \<open>None\<close>.
\<close>

definition is_space :: "char \<Rightarrow> bool" where
  "is_space c =
     (c \<in> set [CHR 0x09, CHR 0x0A, CHR 0x0B, CHR 0x0C, CHR 0x0D, CHR 0x20, CHR 0xA0])"

definition trim :: "string \<Rightarrow> string" where
  "trim s = rev (dropWhile is_space (rev (dropWhile is_space s)))"

definition truthy :: "string \<Rightarrow> bool" where
  "truthy s = (s \<noteq> [])"

definition truthy_opt :: "string option \<Rightarrow> bool" where
  "truthy_opt v = (case v of None \<Rightarrow> False | Some s \<Rightarrow> truthy s)"

text \<open>The test \<open>command && command.trim()\<close>.\<close>

definition has_text :: "string \<Rightarrow> bool" where
  "has_text command = (truthy command \<and> truthy (trim command))"

text \<open>Decimal rendering of a non-negative number, as by \<open>toString\<close> and template literals.\<close>

fun show_nat :: "nat \<Rightarrow> string" where
  "show_nat n =
     (if n < 10 then [''0123456789'' ! n]
      else show_nat (n div 10) @ [''0123456789'' ! (n mod 10)])"

declare show_nat.simps [simp del]

text \<open>The exit code in a template literal: a number, or \<open>null\<close> when a signal ended the child.\<close>

definition show_code :: "int option \<Rightarrow> string" where
  "show_code code =
     (case code of
        None \<Rightarrow> ''null''
      | Some k \<Rightarrow> if k < 0 then ''-'' @ show_nat (nat (- k)) else show_nat (nat k))"

text \<open>\<open>Array.prototype.join\<close> and \<open>String.prototype.split\<close> with a one-character separator.\<close>

fun join :: "string \<Rightarrow> string list \<Rightarrow> string" where
  "join sep [] = []"
| "join sep [x] = x"
| "join sep (x # y # ys) = x @ sep @ join sep (y # ys)"

fun split :: "char \<Rightarrow> string \<Rightarrow> string list" where
  "split sep [] = [[]]"
| "split sep (c # cs) =
     (if c = sep then [] # split sep cs
      else (case split sep cs of
              [] \<Rightarrow> [[c]]
            | p # ps \<Rightarrow> (c # p) # ps))"

text \<open>\<open>Array.prototype.indexOf\<close> (\<open>-1\<close> when absent) and an index read (\<open>undefined\<close> out of range).\<close>

definition indexOf :: "string list \<Rightarrow> string \<Rightarrow> int" where
  "indexOf xs x = (if x \<in> set xs then int (length (takeWhile (\<lambda>y. y \<noteq> x) xs)) else - 1)"

definition at_index :: "string list \<Rightarrow> int \<Rightarrow> string option" where
  "at_index xs i = (if 0 \<le> i \<and> nat i < length xs then Some (xs ! nat i) else None)"

subsection \<open>The file system\<close>

text \<open>
  A path is kept as its list of components, so \<open>path.join\<close> is concatenation (components
  are plain names: no \<open>.\<close>, \<open>..\<close> or empty component). The file system is a set of
  directories and a map from paths to file contents. A file written from
  \<open>Buffer.from(s, 'base64')\<close> has the content \<open>Base64 s\<close>. The three operations used by the
  module fail where the state of the file system makes them fail.
\<close>

type_synonym path = "string list"

datatype bytes = Base64 string

datatype fs_error = EEXIST | ENOENT | EISDIR

record filesys =
  dirs :: "path set"
  files :: "path \<rightharpoonup> bytes"

definition path_string :: "path \<Rightarrow> string" where
  "path_string p = join ''/'' p"

text \<open>The non-empty prefixes of a path, shortest first, the path itself last.\<close>

definition ancestors :: "path \<Rightarrow> path list" where
  "ancestors p = map (\<lambda>n. take n p) [1..<Suc (length p)]"

definition under :: "path \<Rightarrow> path \<Rightarrow> bool" where
  "under p q = (take (length p) q = p)"

text \<open>\<open>fs.mkdir(p, {recursive: true})\<close>: creates \<open>p\<close> and every missing ancestor.\<close>

definition mkdir_p :: "path \<Rightarrow> filesys \<Rightarrow> fs_error + filesys" where
  "mkdir_p p fs =
     (if list_ex (\<lambda>q. files fs q \<noteq> None) (ancestors p) then Inl EEXIST
      else Inr (fs\<lparr>dirs := dirs fs \<union> set (ancestors p)\<rparr>))"

definition writeFile :: "path \<Rightarrow> bytes \<Rightarrow> filesys \<Rightarrow> fs_error + filesys" where
  "writeFile p b fs =
     (if p \<in> dirs fs then Inl EISDIR
      else if butlast p \<noteq> [] \<and> butlast p \<notin> dirs fs then Inl ENOENT
      else Inr (fs\<lparr>files := (files fs)(p \<mapsto> b)\<rparr>))"

text \<open>\<open>fs.rmdir(p, {recursive: true})\<close>: removes \<open>p\<close> with everything below it.\<close>

definition rmdir_rec :: "path \<Rightarrow> filesys \<Rightarrow> fs_error + filesys" where
  "rmdir_rec p fs =
     (if p \<in> dirs fs
      then Inr (fs\<lparr>dirs := Set.filter (\<lambda>d. \<not> under p d) (dirs fs),
                   files := (\<lambda>q. if under p q then None else files fs q)\<rparr>)
      else Inl ENOENT)"

subsection \<open>Child processes\<close>

text \<open>
  A handle returned by \<open>child_process.spawn\<close>. \<open>killed\<close> is the handle's property of that
  name, which \<open>abortQSession\<close> reads: the runtime sets it when \<open>kill\<close> has delivered a
  signal to the process, and it says nothing about whether the process has ended.
  \<open>exited\<close> holds once the operating-system process is gone (the runtime then has no
  process to signal and \<open>kill\<close> returns \<open>false\<close>). \<open>signals\<close> lists the signals delivered
  to the process. \<open>kill\<close> is the runtime's \<open>subprocess.kill\<close>.
\<close>

datatype signal = SIGTERM | SIGKILL

record child =
  spawnfile :: string
  spawnargs :: "string list"
  spawncwd :: path
  stdio :: "string list"
  spawnenv :: "string \<rightharpoonup> string"
  killed :: bool
  exited :: bool
  signals :: "signal list"

definition kill :: "signal \<Rightarrow> child \<Rightarrow> bool \<times> child" where
  "kill sig c =
     (if exited c then (False, c)
      else (True, c\<lparr>killed := True, signals := signals c @ [sig]\<rparr>))"

subsection \<open>Messages, socket, options\<close>

text \<open>
  The JSON objects sent over the socket, one constructor per shape; \<open>message_type\<close> is the
  \<open>type\<close> field. \<open>q-error\<close> is used both for a chunk of standard error (field \<open>data\<close>) and
  for a launch failure (field \<open>error\<close>). A session identifier that is \<open>undefined\<close> is
  \<open>None\<close>. The time stamp is the clock reading in milliseconds.
\<close>

datatype message =
    SessionCreated string nat
  | QOutput string "string option" nat
  | QErrorData string "string option" nat
  | QErrorMessage string "string option" nat
  | QComplete "string option" "int option" nat

fun message_type :: "message \<Rightarrow> string" where
  "message_type (SessionCreated sid ts) = ''session-created''"
| "message_type (QOutput d sid ts) = ''q-output''"
| "message_type (QErrorData d sid ts) = ''q-error''"
| "message_type (QErrorMessage e sid ts) = ''q-error''"
| "message_type (QComplete sid code ts) = ''q-complete''"

text \<open>
  The socket object \<open>ws\<close>: its \<open>readyState\<close> (1 is open), whether \<open>send\<close> throws, and the
  messages it has accepted.
\<close>

record websocket =
  readyState :: nat
  send_throws :: bool
  delivered :: "message list"

record tools_settings =
  allowedTools :: "string list"
  disallowedTools :: "string list"
  skipPermissions :: bool

text \<open>
  An attachment, of which \<open>spawnQ\<close> reads the field \<open>data\<close>: \<open>Some\<close> of a string, or
  \<open>None\<close> when the field is missing or holds something that is not a string (\<open>match\<close>
  is then not a function of it, and calling it throws a \<open>TypeError\<close>). The options are
  the fields that \<open>spawnQ\<close> destructures; an absent field is \<open>None\<close>.
\<close>

record image =
  data :: "string option"

record options =
  sessionId :: "string option"
  projectPath :: "string option"
  cwd :: "path option"
  resume :: "bool option"
  toolsSettings :: "tools_settings option"
  permissionMode :: "string option"
  images :: "image list option"

subsection \<open>The state\<close>

datatype js_error = Error string

datatype outcome =
    Resolved bool string "string option"
  | Rejected js_error

text \<open>
  What is shared by all runs: the registry, the handles (by reference), the file system,
  the lines written with \<open>console.error\<close> (the label, without the error object that
  follows it; \<open>console.log\<close> progress lines are not recorded), the pending timers of
  \<open>abortQSession\<close> (delay, handle, session), the clock, and the server's own
  environment and directory.
\<close>

record world =
  activeQProcesses :: "string \<rightharpoonup> nat"
  children :: "nat \<rightharpoonup> child"
  next_child :: nat
  fsys :: filesys
  console :: "string list"
  timers :: "(nat \<times> nat \<times> string) list"
  clock :: nat
  process_env :: "string \<rightharpoonup> string"
  process_cwd :: path

text \<open>The variables of one call of \<open>spawnQ\<close>, which its callbacks close over.\<close>

record run =
  capturedSessionId :: "string option"
  sessionCreatedSent :: bool
  settings :: tools_settings
  args :: "string list"
  workingDir :: path
  tempImagePaths :: "path list"
  tempDir :: "path option"
  qProcess :: nat
  outputBuffer :: string
  errorBuffer :: string
  ws :: "websocket option"
  settled :: "outcome option"

subsection \<open>Staging the attached images\<close>

text \<open>
  The regular expression \<open>/^data:([^;]+);base64,(.+)$/\<close>. The first group is the longest
  run of characters other than \<open>;\<close> after \<open>data:\<close> (a shorter run would have to be
  followed by \<open>;\<close>), and it must not be empty; the second group is everything after
  \<open>;base64,\<close>, not empty and without a line terminator, since \<open>.\<close> matches none and
  \<open>$\<close> is the end of the input.
\<close>

definition line_terminator :: "char \<Rightarrow> bool" where
  "line_terminator c = (c = CHR 0x0A \<or> c = CHR 0x0D)"

definition starts_with :: "string \<Rightarrow> string \<Rightarrow> bool" where
  "starts_with p s = (take (length p) s = p)"

definition match_data_url :: "string \<Rightarrow> (string \<times> string) option" where
  "match_data_url s =
     (if \<not> starts_with ''data:'' s then None
      else
        let r = drop 5 s;
            mimeType = takeWhile (\<lambda>c. c \<noteq> CHR '';'') r;
            rest = dropWhile (\<lambda>c. c \<noteq> CHR '';'') r
        in if mimeType = [] \<or> \<not> starts_with '';base64,'' rest then None
           else
             let base64Data = drop 8 rest
             in if base64Data = [] \<or> list_ex line_terminator base64Data then None
                else Some (mimeType, base64Data))"

text \<open>\<open>mimeType.split('/')[1] || 'png'\<close>\<close>

definition extension_of :: "string \<Rightarrow> string" where
  "extension_of mimeType =
     (case at_index (split CHR ''/'' mimeType) 1 of
        None \<Rightarrow> ''png''
      | Some e \<Rightarrow> if truthy e then e else ''png'')"

definition image_filename :: "nat \<Rightarrow> string \<Rightarrow> string" where
  "image_filename index extension = ''image_'' @ show_nat index @ ''.'' @ extension"

text \<open>What can be thrown inside the \<open>try\<close> block of the image staging.\<close>

datatype exception = TypeError | FsError fs_error

text \<open>
  The loop over \<open>images.entries()\<close>. An entry whose \<open>data\<close> is a string that does not
  match is reported and skipped (\<open>continue\<close>). An entry whose \<open>data\<close> is not a string
  makes \<open>image.data.match\<close> throw, and a failing \<open>writeFile\<close> throws as well: either
  leaves the loop, and the result then carries the exception, with the paths collected
  and the files written so far.
\<close>

fun save_images ::
  "path \<Rightarrow> nat \<Rightarrow> image list \<Rightarrow> path list \<Rightarrow> filesys \<Rightarrow> string list
     \<Rightarrow> exception option \<times> path list \<times> filesys \<times> string list" where
  "save_images tdir index [] paths fs con = (None, paths, fs, con)"
| "save_images tdir index (img # rest) paths fs con =
     (case data img of
        None \<Rightarrow> (Some TypeError, paths, fs, con)
      | Some d \<Rightarrow>
          (case match_data_url d of
             None \<Rightarrow>
               save_images tdir (Suc index) rest paths fs
                 (con @ [''Invalid image data format''])
           | Some (mimeType, base64Data) \<Rightarrow>
               let filepath = tdir @ [image_filename index (extension_of mimeType)]
               in (case writeFile filepath (Base64 base64Data) fs of
                     Inl e \<Rightarrow> (Some (FsError e), paths, fs, con)
                   | Inr fs' \<Rightarrow>
                       save_images tdir (Suc index) rest (paths @ [filepath]) fs' con)))"

text \<open>The note built from the staged paths, numbered from 1.\<close>

definition imageNote :: "path list \<Rightarrow> string" where
  "imageNote paths =
     [CHR 0x0A, CHR 0x0A] @ ''[Images provided at the following paths:]'' @ [CHR 0x0A] @
     join [CHR 0x0A]
       (map (\<lambda>(p, i). show_nat (i + 1) @ ''. '' @ path_string p) (zip paths [0..<length paths]))"

definition modifiedCommand :: "string \<Rightarrow> path list \<Rightarrow> string" where
  "modifiedCommand command paths = command @ imageNote paths"

text \<open>
  \<open>const messageIndex = args.indexOf('--message');
   if (messageIndex !== -1 && args[messageIndex + 1]) args[messageIndex + 1] = modifiedCommand;\<close>
\<close>

definition update_message :: "string list \<Rightarrow> string \<Rightarrow> string list" where
  "update_message as modified =
     (let messageIndex = indexOf as ''--message''
      in if messageIndex \<noteq> - 1 \<and> truthy_opt (at_index as (messageIndex + 1))
         then as[nat (messageIndex + 1) := modified]
         else as)"

text \<open>
  The block guarded by \<open>images && images.length > 0\<close>, with its \<open>try\<close>/\<open>catch\<close>. The
  result is \<open>tempDir\<close>, \<open>tempImagePaths\<close>, the argument list and the world. \<open>tempDir\<close> is
  assigned before \<open>mkdir\<close> is attempted, so it is set even when \<open>mkdir\<close> fails.
\<close>

definition image_dir :: "path \<Rightarrow> nat \<Rightarrow> path" where
  "image_dir wdir now = wdir @ [''.tmp'', ''images'', show_nat now]"

definition process_images ::
  "string \<Rightarrow> image list option \<Rightarrow> path \<Rightarrow> string list \<Rightarrow> world
     \<Rightarrow> path option \<times> path list \<times> string list \<times> world" where
  "process_images command imgs wdir as w =
     (case imgs of
        None \<Rightarrow> (None, [], as, w)
      | Some is \<Rightarrow>
          if length is > 0 then
            let tdir = image_dir wdir (clock w)
            in (case mkdir_p tdir (fsys w) of
                  Inl e \<Rightarrow>
                    (Some tdir, [], as,
                     w\<lparr>console := console w @ [''Error processing images for Q:'']\<rparr>)
                | Inr fs1 \<Rightarrow>
                    (case save_images tdir 0 is [] fs1 (console w) of
                       (Some e, paths, fs2, con) \<Rightarrow>
                         (Some tdir, paths, as,
                          w\<lparr>fsys := fs2, console := con @ [''Error processing images for Q:'']\<rparr>)
                     | (None, paths, fs2, con) \<Rightarrow>
                         (Some tdir, paths,
                          (if length paths > 0 \<and> has_text command
                           then update_message as (modifiedCommand command paths)
                           else as),
                          w\<lparr>fsys := fs2, console := con\<rparr>)))
          else (None, [], as, w))"

subsection \<open>Sending to the socket\<close>

text \<open>
  The pattern \<open>if (ws && ws.readyState === 1) { try { ws.send(...) } catch { console.error(label) } }\<close>
  that every callback uses.
\<close>

definition emit :: "string \<Rightarrow> message \<Rightarrow> run \<times> world \<Rightarrow> run \<times> world" where
  "emit label m = (\<lambda>(r, w).
     (case ws r of
        None \<Rightarrow> (r, w)
      | Some s \<Rightarrow>
          if readyState s = 1 then
            (if send_throws s then (r, w\<lparr>console := console w @ [label]\<rparr>)
             else (r\<lparr>ws := Some (s\<lparr>delivered := delivered s @ [m]\<rparr>)\<rparr>, w))
          else (r, w)))"

text \<open>The messages the socket of a run has accepted.\<close>

definition sent :: "run \<times> world \<Rightarrow> message list" where
  "sent s = (case ws (fst s) of None \<Rightarrow> [] | Some k \<Rightarrow> delivered k)"

text \<open>\<open>resolve\<close> and \<open>reject\<close>: a promise is settled once; later calls change nothing.\<close>

definition settle :: "outcome \<Rightarrow> run \<Rightarrow> run" where
  "settle out r = (if settled r = None then r\<lparr>settled := Some out\<rparr> else r)"

subsection \<open>spawnQ\<close>

definition default_settings :: tools_settings where
  "default_settings = \<lparr>allowedTools = [], disallowedTools = [], skipPermissions = False\<rparr>"

definition register_session :: "string option \<Rightarrow> nat \<Rightarrow> world \<Rightarrow> world" where
  "register_session sid pid w =
     (case sid of
        None \<Rightarrow> w
      | Some k \<Rightarrow>
          if truthy k then w\<lparr>activeQProcesses := (activeQProcesses w)(k \<mapsto> pid)\<rparr> else w)"

definition unregister_session :: "string option \<Rightarrow> world \<Rightarrow> world" where
  "unregister_session sid w =
     (case sid of
        None \<Rightarrow> w
      | Some k \<Rightarrow>
          if truthy k then w\<lparr>activeQProcesses := (activeQProcesses w)(k := None)\<rparr> else w)"

text \<open>\<open>capturedSessionId || `q-session-${Date.now()}`\<close>\<close>

definition session_or_fresh :: "string option \<Rightarrow> nat \<Rightarrow> string" where
  "session_or_fresh sid now =
     (case sid of
        None \<Rightarrow> ''q-session-'' @ show_nat now
      | Some k \<Rightarrow> if truthy k then k else ''q-session-'' @ show_nat now)"

text \<open>The last statement of \<open>spawnQ\<close>: the \<open>session-created\<close> message.\<close>

definition send_session_created :: "run \<times> world \<Rightarrow> run \<times> world" where
  "send_session_created = (\<lambda>(r, w).
     (case ws r of
        None \<Rightarrow> (r, w)
      | Some s \<Rightarrow>
          if readyState s = 1 \<and> \<not> sessionCreatedSent r then
            (if send_throws s
             then (r, w\<lparr>console := console w @ [''Error sending session-created message:'']\<rparr>)
             else
               let sid = session_or_fresh (capturedSessionId r) (clock w)
               in (r\<lparr>ws := Some (s\<lparr>delivered := delivered s @ [SessionCreated sid (clock w)]\<rparr>),
                     sessionCreatedSent := True\<rparr>, w))
          else (r, w)))"

text \<open>\<open>const workingDir = cwd || process.cwd()\<close>\<close>

definition working_dir :: "options \<Rightarrow> world \<Rightarrow> path" where
  "working_dir opts w =
     (case cwd opts of
        None \<Rightarrow> process_cwd w
      | Some d \<Rightarrow> if d \<noteq> [] then d else process_cwd w)"

text \<open>The argument list before the image block: \<open>chat\<close>, then the command if it has text.\<close>

definition first_args :: "string \<Rightarrow> string list" where
  "first_args command = [''chat''] @ (if has_text command then [command] else [])"

text \<open>
  \<open>spawn('q', args, {cwd, stdio: ['pipe', 'pipe', 'pipe'], env: {...process.env,
  FORCE_COLOR: '0', NO_COLOR: '1'}})\<close>: a new handle, returned with the state holding it.
  A launch that fails is reported later, by the \<open>error\<close> notification. The exceptions
  that \<open>spawn\<close> throws at once (an argument or a directory holding a NUL character) are
  not modelled.
\<close>

definition spawn :: "string list \<Rightarrow> path \<Rightarrow> world \<Rightarrow> nat \<times> world" where
  "spawn as wdir w =
     (let pid = next_child w;
          c = \<lparr>spawnfile = ''q'', spawnargs = as, spawncwd = wdir,
               stdio = [''pipe'', ''pipe'', ''pipe''],
               spawnenv = (process_env w)(''FORCE_COLOR'' \<mapsto> ''0'', ''NO_COLOR'' \<mapsto> ''1''),
               killed = False, exited = False, signals = []\<rparr>
      in (pid, w\<lparr>children := (children w)(pid \<mapsto> c), next_child := Suc pid\<rparr>))"

definition spawnQ :: "string \<Rightarrow> options \<Rightarrow> websocket option \<Rightarrow> world \<Rightarrow> run \<times> world" where
  "spawnQ command opts sock w =
     (let wdir = working_dir opts w;
          (tdir, paths, args1, w1) = process_images command (images opts) wdir (first_args command) w;
          args2 = args1 @ [''--verbose''];
          (pid, w2) = spawn args2 wdir w1;
          w3 = register_session (sessionId opts) pid w2;
          r = \<lparr>capturedSessionId = sessionId opts, sessionCreatedSent = False,
               settings = (case toolsSettings opts of None \<Rightarrow> default_settings | Some t \<Rightarrow> t),
               args = args2, workingDir = wdir, tempImagePaths = paths, tempDir = tdir,
               qProcess = pid, outputBuffer = [], errorBuffer = [], ws = sock,
               settled = None\<rparr>
      in send_session_created (r, w3))"

subsection \<open>The callbacks\<close>

text \<open>
  \<open>fs.rmdir(tempDir, {recursive: true}).catch(...)\<close>, when a staging directory was named.
  The removal is asynchronous in the source; here it takes effect in the callback that
  requests it.
\<close>

definition cleanup_temp :: "path option \<Rightarrow> world \<Rightarrow> world" where
  "cleanup_temp tdir w =
     (case tdir of
        None \<Rightarrow> w
      | Some d \<Rightarrow>
          (case rmdir_rec d (fsys w) of
             Inl e \<Rightarrow> w\<lparr>console := console w @ [''Error cleaning up temp images:'']\<rparr>
           | Inr fs' \<Rightarrow> w\<lparr>fsys := fs'\<rparr>))"

definition on_stdout :: "string \<Rightarrow> run \<times> world \<Rightarrow> run \<times> world" where
  "on_stdout chunk = (\<lambda>(r, w).
     emit ''Error sending WebSocket message:''
       (QOutput chunk (capturedSessionId r) (clock w))
       (r\<lparr>outputBuffer := outputBuffer r @ chunk\<rparr>, w))"

definition on_stderr :: "string \<Rightarrow> run \<times> world \<Rightarrow> run \<times> world" where
  "on_stderr chunk = (\<lambda>(r, w).
     emit ''Error sending WebSocket error message:''
       (QErrorData chunk (capturedSessionId r) (clock w))
       (r\<lparr>errorBuffer := errorBuffer r @ chunk\<rparr>, w))"

definition on_close :: "int option \<Rightarrow> run \<times> world \<Rightarrow> run \<times> world" where
  "on_close code = (\<lambda>(r, w).
     let w1 = cleanup_temp (tempDir r) w;
         w2 = unregister_session (capturedSessionId r) w1;
         (r3, w3) = emit ''Error sending completion message:''
                      (QComplete (capturedSessionId r) code (clock w2)) (r, w2)
     in if code = Some 0
        then (settle (Resolved True (outputBuffer r3) (capturedSessionId r3)) r3, w3)
        else (settle (Rejected (Error (''Q CLI exited with code '' @ show_code code @ '': '' @
                                        errorBuffer r3))) r3, w3))"

definition on_error :: "string \<Rightarrow> run \<times> world \<Rightarrow> run \<times> world" where
  "on_error msg = (\<lambda>(r, w).
     let w0 = w\<lparr>console := console w @ [''Q process error:'']\<rparr>;
         w1 = cleanup_temp (tempDir r) w0;
         w2 = unregister_session (capturedSessionId r) w1;
         (r3, w3) = emit ''Error sending WebSocket error message:''
                      (QErrorMessage msg (capturedSessionId r) (clock w2)) (r, w2)
     in (settle (Rejected (Error msg)) r3, w3))"

subsection \<open>Notifications from the runtime\<close>

text \<open>
  What the runtime delivers to a run, each with the clock reading at delivery: a chunk on
  either pipe, \<open>close\<close> with the exit code (\<open>None\<close> is \<open>null\<close>), \<open>error\<close> with the message of
  the error object, and a change of the socket's \<open>readyState\<close>. When \<open>close\<close> or \<open>error\<close>
  is delivered the runtime has already dropped the process. Which notifications arrive,
  and in which order, is the runtime's choice: the sequence is an input of \<open>run_events\<close>.
\<close>

datatype notification =
    StdoutData string
  | StderrData string
  | Close "int option"
  | ProcessError string
  | SocketState nat

definition mark_exited :: "nat \<Rightarrow> world \<Rightarrow> world" where
  "mark_exited pid w =
     (case children w pid of
        None \<Rightarrow> w
      | Some c \<Rightarrow> w\<lparr>children := (children w)(pid \<mapsto> c\<lparr>exited := True\<rparr>)\<rparr>)"

fun deliver :: "notification \<Rightarrow> run \<times> world \<Rightarrow> run \<times> world" where
  "deliver (StdoutData chunk) s = on_stdout chunk s"
| "deliver (StderrData chunk) s = on_stderr chunk s"
| "deliver (Close code) (r, w) = on_close code (r, mark_exited (qProcess r) w)"
| "deliver (ProcessError msg) (r, w) = on_error msg (r, mark_exited (qProcess r) w)"
| "deliver (SocketState n) (r, w) =
     (r\<lparr>ws := map_option (\<lambda>k. k\<lparr>readyState := n\<rparr>) (ws r)\<rparr>, w)"

definition dispatch :: "nat \<times> notification \<Rightarrow> run \<times> world \<Rightarrow> run \<times> world" where
  "dispatch tn = (\<lambda>(r, w). deliver (snd tn) (r, w\<lparr>clock := fst tn\<rparr>))"

fun run_events :: "(nat \<times> notification) list \<Rightarrow> run \<times> world \<Rightarrow> run \<times> world" where
  "run_events [] s = s"
| "run_events (tn # tns) s = run_events tns (dispatch tn s)"

text \<open>A chunk of output on either pipe.\<close>

fun is_chunk :: "notification \<Rightarrow> bool" where
  "is_chunk (StdoutData c) = True"
| "is_chunk (StderrData c) = True"
| "is_chunk n = False"

subsection \<open>abortQSession\<close>

text \<open>
  \<open>kill\<close> with the signal names used here does not throw, so the \<open>catch\<close> branch of the
  source has no counterpart. The timer set by \<open>setTimeout\<close> is appended to \<open>timers\<close>;
  \<open>force_kill\<close> is its callback.
\<close>

definition abortQSession :: "string \<Rightarrow> world \<Rightarrow> bool \<times> world" where
  "abortQSession sid w =
     (case activeQProcesses w sid of
        None \<Rightarrow> (False, w)
      | Some pid \<Rightarrow>
          (case children w pid of
             None \<Rightarrow> (False, w)
           | Some c \<Rightarrow>
               if \<not> killed c then
                 let (ok, c') = kill SIGTERM c
                 in (True, w\<lparr>children := (children w)(pid \<mapsto> c'),
                              timers := timers w @ [(5000, pid, sid)],
                              activeQProcesses := (activeQProcesses w)(sid := None)\<rparr>)
               else (False, w)))"

definition force_kill :: "nat \<Rightarrow> world \<Rightarrow> world" where
  "force_kill pid w =
     (case children w pid of
        None \<Rightarrow> w
      | Some c \<Rightarrow>
          if \<not> killed c
          then w\<lparr>children := (children w)(pid \<mapsto> snd (kill SIGKILL c))\<rparr>
          else w)"

text \<open>The event loop runs the oldest pending timer.\<close>

definition fire_timer :: "world \<Rightarrow> world" where
  "fire_timer w =
     (case timers w of
        [] \<Rightarrow> w
      | (delay, pid, sid) # rest \<Rightarrow> force_kill pid (w\<lparr>timers := rest\<rparr>))"

text \<open>The signals delivered so far to the process behind a handle.\<close>

definition signals_of :: "nat \<Rightarrow> world \<Rightarrow> signal list" where
  "signals_of pid w = (case children w pid of None \<Rightarrow> [] | Some c \<Rightarrow> signals c)"

text \<open>The handle created by a call of \<open>spawnQ\<close>, as the state after the call holds it.\<close>

definition spawned :: "run \<times> world \<Rightarrow> child option" where
  "spawned s = children (snd s) (qProcess (fst s))"

subsection \<open>Reading a sequence of notifications\<close>

text \<open>
  \<open>close\<close> and \<open>error\<close> end a run. The text a sequence of notifications carries on each
  pipe, and the messages its chunks give rise to when every one of them is forwarded.
\<close>

fun is_terminal :: "notification \<Rightarrow> bool" where
  "is_terminal (Close code) = True"
| "is_terminal (ProcessError msg) = True"
| "is_terminal n = False"

fun stdout_text :: "(nat \<times> notification) list \<Rightarrow> string" where
  "stdout_text [] = []"
| "stdout_text ((t, StdoutData c) # tns) = c @ stdout_text tns"
| "stdout_text (tn # tns) = stdout_text tns"

fun stderr_text :: "(nat \<times> notification) list \<Rightarrow> string" where
  "stderr_text [] = []"
| "stderr_text ((t, StderrData c) # tns) = c @ stderr_text tns"
| "stderr_text (tn # tns) = stderr_text tns"

fun chunk_messages :: "string option \<Rightarrow> (nat \<times> notification) list \<Rightarrow> message list" where
  "chunk_messages sid [] = []"
| "chunk_messages sid ((t, StdoutData c) # tns) = QOutput c sid t # chunk_messages sid tns"
| "chunk_messages sid ((t, StderrData c) # tns) = QErrorData c sid t # chunk_messages sid tns"
| "chunk_messages sid (tn # tns) = chunk_messages sid tns"

text \<open>The socket of a run is present, open, and its \<open>send\<close> does not throw.\<close>

definition sink_open :: "run \<times> world \<Rightarrow> bool" where
  "sink_open s = (case ws (fst s) of None \<Rightarrow> False | Some k \<Rightarrow> readyState k = 1 \<and> \<not> send_throws k)"

text \<open>The \<open>sessionId\<close> field of a message.\<close>

fun message_session :: "message \<Rightarrow> string option" where
  "message_session (SessionCreated sid ts) = Some sid"
| "message_session (QOutput d sid ts) = sid"
| "message_session (QErrorData d sid ts) = sid"
| "message_session (QErrorMessage e sid ts) = sid"
| "message_session (QComplete sid code ts) = sid"

text \<open>A message that is not \<open>session-created\<close> and carries no session identifier.\<close>

definition no_session :: "message \<Rightarrow> bool" where
  "no_session m = (message_type m \<noteq> ''session-created'' \<and> message_session m = None)"

subsection \<open>What staging is expected to produce\<close>

text \<open>
  An attachment has a string payload when its \<open>data\<close> is a string, and is well formed
  when that string matches the data-URL pattern. The paths expected from a list of
  attachments: one per well-formed entry, named by the entry's position in the list.
  The number of \<open>Invalid image data format\<close> lines on the console.
\<close>

definition string_payload :: "image \<Rightarrow> bool" where
  "string_payload img = (data img \<noteq> None)"

definition well_formed :: "image \<Rightarrow> bool" where
  "well_formed img = (Option.bind (data img) match_data_url \<noteq> None)"

fun expected_paths :: "path \<Rightarrow> nat \<Rightarrow> image list \<Rightarrow> path list" where
  "expected_paths tdir index [] = []"
| "expected_paths tdir index (img # rest) =
     (case Option.bind (data img) match_data_url of
        None \<Rightarrow> expected_paths tdir (Suc index) rest
      | Some (mimeType, base64Data) \<Rightarrow>
          (tdir @ [image_filename index (extension_of mimeType)]) #
          expected_paths tdir (Suc index) rest)"

definition diagnostics :: "string list \<Rightarrow> nat" where
  "diagnostics con = length (filter (\<lambda>l. l = ''Invalid image data format'') con)"

subsection \<open>Example inputs\<close>

text \<open>
  A server in directory \<open>srv\<close> with one project directory \<open>proj\<close>, no session running,
  the clock at 42; an open socket; a request for session \<open>s1\<close> in \<open>proj\<close> with two
  attachments, the first a well-formed data URL and the second not.
\<close>

definition example_world :: world where
  "example_world =
     \<lparr>activeQProcesses = Map.empty, children = Map.empty, next_child = 0,
      fsys = \<lparr>dirs = {[''proj'']}, files = Map.empty\<rparr>, console = [], timers = [],
      clock = 42, process_env = Map.empty, process_cwd = [''srv'']\<rparr>"

definition open_socket :: websocket where
  "open_socket = \<lparr>readyState = 1, send_throws = False, delivered = []\<rparr>"

definition example_options :: options where
  "example_options =
     \<lparr>sessionId = Some ''s1'', projectPath = None, cwd = Some [''proj''], resume = None,
      toolsSettings = None, permissionMode = None,
      images = Some [\<lparr>data = Some ''data:image/png;base64,AAAA''\<rparr>,
                     \<lparr>data = Some ''AAAA''\<rparr>]\<rparr>"

text \<open>A socket that is closed, and the example request without a session identifier.\<close>

definition closed_socket :: websocket where
  "closed_socket = \<lparr>readyState = 3, send_throws = False, delivered = []\<rparr>"

definition anonymous_options :: options where
  "anonymous_options = example_options\<lparr>sessionId := None\<rparr>"

text \<open>
  The example request for a directory that does not exist, and the example request
  without attachments.
\<close>

definition missing_dir_options :: options where
  "missing_dir_options = example_options\<lparr>cwd := Some [''missing'']\<rparr>"

text \<open>
  The example server with a file named \<open>.tmp\<close> in the project directory, and the example
  request with a first attachment that has no \<open>data\<close> and a second that is well formed.
\<close>

definition blocked_world :: world where
  "blocked_world =
     example_world\<lparr>fsys := \<lparr>dirs = {[''proj'']},
                             files = [[''proj'', ''.tmp''] \<mapsto> Base64 ''AAAA'']\<rparr>\<rparr>"

definition untyped_options :: options where
  "untyped_options =
     example_options\<lparr>images := Some [\<lparr>data = None\<rparr>,
                                       \<lparr>data = Some ''data:image/png;base64,AAAA''\<rparr>]\<rparr>"

definition plain_options :: options where
  "plain_options = example_options\<lparr>images := None\<rparr>"

section \<open>Properties\<close>

subsection \<open>What spawnQ hands to the child process\<close>

lemma takeWhile_last_only:
  "x \<in> set as \<Longrightarrow> x \<notin> set (butlast as) \<Longrightarrow> Suc (length (takeWhile (\<lambda>y. y \<noteq> x) as)) = length as"
proof (induction as)
  case Nil
  then show ?case by simp
next
  case (Cons a as)
  then show ?case by (cases "as = []") (auto split: if_splits)
qed

lemma update_message_noop:
  assumes "''--message'' \<notin> set (butlast as)"
  shows "update_message as m = as"
proof (cases "''--message'' \<in> set as")
  case False
  then show ?thesis by (simp add: update_message_def indexOf_def Let_def)
next
  case True
  from takeWhile_last_only [OF True assms]
  have "at_index as (indexOf as ''--message'' + 1) = None"
    using True by (simp add: at_index_def indexOf_def)
  then show ?thesis by (simp add: update_message_def truthy_opt_def Let_def)
qed

lemma process_images_args:
  "''--message'' \<notin> set (butlast as) \<Longrightarrow>
   fst (snd (snd (process_images c imgs wdir as w))) = as"
  unfolding process_images_def
  by (simp add: update_message_noop Let_def split: option.splits sum.splits prod.splits)

lemma first_args_no_flag:
  "''--message'' \<notin> set (butlast (first_args c))"
  by (simp add: first_args_def)

lemma send_session_created_children:
  "children (snd (send_session_created s)) = children (snd s)"
  by (cases s) (simp add: send_session_created_def Let_def split: option.splits)

lemma send_session_created_qProcess:
  "qProcess (fst (send_session_created s)) = qProcess (fst s)"
  by (cases s) (simp add: send_session_created_def Let_def split: option.splits)

lemma register_session_children:
  "children (register_session sid pid w) = children w"
  by (simp add: register_session_def split: option.splits)

lemma process_images_env:
  "process_env (snd (snd (snd (process_images c imgs wdir as w)))) = process_env w"
  unfolding process_images_def
  by (simp add: Let_def split: option.splits sum.splits prod.splits)

lemma spawned_spawnQ:
  "spawned (spawnQ command opts sock w) =
     Some \<lparr>spawnfile = ''q'',
           spawnargs = first_args command @ [''--verbose''],
           spawncwd = working_dir opts w,
           stdio = [''pipe'', ''pipe'', ''pipe''],
           spawnenv = (process_env w)(''FORCE_COLOR'' \<mapsto> ''0'', ''NO_COLOR'' \<mapsto> ''1''),
           killed = False, exited = False, signals = []\<rparr>"
proof -
  obtain tdir paths args1 w1 where pi:
    "process_images command (images opts) (working_dir opts w) (first_args command) w = (tdir, paths, args1, w1)"
    by (cases "process_images command (images opts) (working_dir opts w) (first_args command) w") auto
  have a: "args1 = first_args command"
    using process_images_args [OF first_args_no_flag, of command "images opts" "working_dir opts w" command w] pi
    by simp
  have e: "process_env w1 = process_env w"
    using process_images_env [of command "images opts" "working_dir opts w" "first_args command" w] pi by simp
  show ?thesis
    unfolding spawned_def spawnQ_def
    by (simp add: Let_def pi a e spawn_def send_session_created_children
        send_session_created_qProcess register_session_children)
qed

text \<open>
  Claim C1 says that, with an image staged and a command that has text, the child
  receives the command followed by a note listing the staged paths. The code does not do
  this. \<open>spawnQ\<close> builds the command with the note appended and then looks for the
  argument after \<open>--message\<close> to replace it; the argument list never holds \<open>--message\<close>
  (the command was pushed as a positional argument), so the note is dropped. In the
  example one image is staged, the command has text, the command with the note is the
  string shown, and the child receives \<open>chat\<close>, the command as it was, \<open>--verbose\<close>.
  Lemma \<open>spawned_spawnQ\<close> gives the same argument vector for every input.
\<close>

theorem image_note_is_not_passed_to_child:
  "tempImagePaths (fst (spawnQ ''describe'' example_options (Some open_socket) example_world)) =
     [[''proj'', ''.tmp'', ''images'', ''42'', ''image_0.png'']] \<and>
   has_text ''describe'' \<and>
   modifiedCommand ''describe''
     (tempImagePaths (fst (spawnQ ''describe'' example_options (Some open_socket) example_world))) =
     ''describe'' @ [CHR 0x0A, CHR 0x0A] @ ''[Images provided at the following paths:]'' @
     [CHR 0x0A] @ ''1. proj/.tmp/images/42/image_0.png'' \<and>
   map_option spawnargs
     (spawned (spawnQ ''describe'' example_options (Some open_socket) example_world)) =
     Some [''chat'', ''describe'', ''--verbose'']"
  by code_simp

text \<open>
  Claim C10. Two calls of \<open>spawnQ\<close> that differ only in \<open>resume\<close>, \<open>toolsSettings\<close> and
  \<open>permissionMode\<close> create the same handle: the same program, argument vector,
  working directory, pipes and environment.
\<close>

theorem spawnQ_ignores_resume_tools_permission:
  "spawned (spawnQ command (opts\<lparr>resume := a, toolsSettings := b, permissionMode := c\<rparr>) sock w) =
   spawned (spawnQ command opts sock w)"
  by (simp add: spawned_spawnQ working_dir_def)

subsection \<open>Fields of the run that the callbacks keep\<close>

lemma run_events_append:
  "run_events (xs @ ys) s = run_events ys (run_events xs s)"
  by (induction xs arbitrary: s) auto

lemma emit_run_fields:
  "capturedSessionId (fst (emit l m s)) = capturedSessionId (fst s)"
  "settled (fst (emit l m s)) = settled (fst s)"
  "outputBuffer (fst (emit l m s)) = outputBuffer (fst s)"
  "errorBuffer (fst (emit l m s)) = errorBuffer (fst s)"
  "tempDir (fst (emit l m s)) = tempDir (fst s)"
  "qProcess (fst (emit l m s)) = qProcess (fst s)"
  by (cases s; simp add: emit_def split: option.splits)+

lemma dispatch_nonterminal_fields:
  assumes "\<not> is_terminal (snd tn)"
  shows "capturedSessionId (fst (dispatch tn s)) = capturedSessionId (fst s)"
    and "settled (fst (dispatch tn s)) = settled (fst s)"
    and "outputBuffer (fst (dispatch tn s)) = outputBuffer (fst s) @ stdout_text [tn]"
    and "errorBuffer (fst (dispatch tn s)) = errorBuffer (fst s) @ stderr_text [tn]"
  using assms
  by (cases s; cases tn; cases "snd tn";
      simp add: dispatch_def on_stdout_def on_stderr_def emit_run_fields)+

lemma stdout_text_Cons: "stdout_text (tn # tns) = stdout_text [tn] @ stdout_text tns"
  by (cases tn; cases "snd tn") auto

lemma stderr_text_Cons: "stderr_text (tn # tns) = stderr_text [tn] @ stderr_text tns"
  by (cases tn; cases "snd tn") auto

lemma run_events_nonterminal_fields:
  assumes "list_all (\<lambda>tn. \<not> is_terminal (snd tn)) pre"
  shows "capturedSessionId (fst (run_events pre s)) = capturedSessionId (fst s) \<and>
         settled (fst (run_events pre s)) = settled (fst s) \<and>
         outputBuffer (fst (run_events pre s)) = outputBuffer (fst s) @ stdout_text pre \<and>
         errorBuffer (fst (run_events pre s)) = errorBuffer (fst s) @ stderr_text pre"
  using assms
proof (induction pre arbitrary: s)
  case Nil
  then show ?case by simp
next
  case (Cons tn pre)
  then have nt: "\<not> is_terminal (snd tn)" and rest: "list_all (\<lambda>tn. \<not> is_terminal (snd tn)) pre"
    by simp_all
  show ?case
    using Cons.IH [OF rest, of "dispatch tn s"] dispatch_nonterminal_fields [OF nt, of s]
      stdout_text_Cons [of tn pre] stderr_text_Cons [of tn pre]
    by simp
qed

lemma on_close_settled:
  "settled r = None \<Longrightarrow>
   settled (fst (on_close code (r, w))) =
   Some (if code = Some 0 then Resolved True (outputBuffer r) (capturedSessionId r)
         else Rejected (Error (''Q CLI exited with code '' @ show_code code @ '': '' @ errorBuffer r)))"
  unfolding on_close_def
  by (simp add: Let_def split_def settle_def emit_run_fields)

lemma send_session_created_run_fields:
  "capturedSessionId (fst (send_session_created s)) = capturedSessionId (fst s)"
  "settled (fst (send_session_created s)) = settled (fst s)"
  "outputBuffer (fst (send_session_created s)) = outputBuffer (fst s)"
  "errorBuffer (fst (send_session_created s)) = errorBuffer (fst s)"
  "tempDir (fst (send_session_created s)) = tempDir (fst s)"
  "qProcess (fst (send_session_created s)) = qProcess (fst s)"
  "tempImagePaths (fst (send_session_created s)) = tempImagePaths (fst s)"
  "workingDir (fst (send_session_created s)) = workingDir (fst s)"
  by (cases s; simp add: send_session_created_def Let_def split: option.splits)+

lemma spawnQ_run_fields:
  "capturedSessionId (fst (spawnQ command opts sock w)) = sessionId opts"
  "settled (fst (spawnQ command opts sock w)) = None"
  "outputBuffer (fst (spawnQ command opts sock w)) = []"
  "errorBuffer (fst (spawnQ command opts sock w)) = []"
  unfolding spawnQ_def
  by (simp_all add: Let_def split_def send_session_created_run_fields)

subsection \<open>The result of a run that exits\<close>

text \<open>
  Claim C5. When the notifications of a run are chunks (and socket changes) followed by
  \<open>close\<close>, the promise is settled by the exit code: resolved with \<open>success: true\<close>, the
  text received on standard output and the session identifier exactly when the code is
  0, and otherwise rejected with an error whose message carries the code and the text
  received on standard error.
\<close>

theorem close_resolves_by_exit_code:
  assumes "list_all (\<lambda>tn. \<not> is_terminal (snd tn)) pre"
  shows "settled (fst (run_events (pre @ [(t, Close code)]) (spawnQ command opts sock w))) =
     Some (if code = Some 0 then Resolved True (stdout_text pre) (sessionId opts)
           else Rejected (Error (''Q CLI exited with code '' @ show_code code @ '': '' @
                                 stderr_text pre)))"
proof -
  define s where "s = run_events pre (spawnQ command opts sock w)"
  have f: "capturedSessionId (fst s) = sessionId opts" "settled (fst s) = None"
     "outputBuffer (fst s) = stdout_text pre" "errorBuffer (fst s) = stderr_text pre"
    using run_events_nonterminal_fields [OF assms, of "spawnQ command opts sock w"]
    by (simp_all add: s_def spawnQ_run_fields)
  obtain r w' where s: "s = (r, w')" by (cases s)
  have "run_events (pre @ [(t, Close code)]) (spawnQ command opts sock w) =
        on_close code (r, mark_exited (qProcess r) (w'\<lparr>clock := t\<rparr>))"
    by (simp add: run_events_append s_def [symmetric] s dispatch_def)
  then show ?thesis
    using f on_close_settled [of r code] by (simp add: s)
qed


theorem close_resolves_by_exit_code_witness:
  "list_all (\<lambda>tn. \<not> is_terminal (snd tn)) [(50, StdoutData ''hi''), (51, StderrData ''warn'')] \<and>
   settled (fst (run_events ([(50, StdoutData ''hi''), (51, StderrData ''warn'')] @ [(60, Close (Some 2))])
                  (spawnQ ''describe'' example_options (Some open_socket) example_world))) =
     Some (Rejected (Error ''Q CLI exited with code 2: warn''))"
proof -
  have h: "list_all (\<lambda>tn. \<not> is_terminal (snd tn))
             [(50, StdoutData ''hi''), (51, StderrData ''warn'')]"
    by simp
  have c: "show_code (Some 2) = ''2''"
    by code_simp
  show ?thesis
    using h close_resolves_by_exit_code [OF h, of 60 "Some 2" "''describe''" example_options
        "Some open_socket" example_world]
    by (simp add: c)
qed

subsection \<open>The messages of a run\<close>

lemma emit_open:
  "sink_open (r, w) \<Longrightarrow>
   sent (emit l m (r, w)) = sent (r, w) @ [m] \<and> sink_open (emit l m (r, w)) \<and>
   snd (emit l m (r, w)) = w"
  by (auto simp: emit_def sink_open_def sent_def split: option.splits)

lemma chunk_messages_Cons:
  "chunk_messages sid (tn # tns) = chunk_messages sid [tn] @ chunk_messages sid tns"
  by (cases tn; cases "snd tn") auto

lemma dispatch_chunk_open:
  assumes "is_chunk (snd tn)" "sink_open s"
  shows "sent (dispatch tn s) = sent s @ chunk_messages (capturedSessionId (fst s)) [tn]"
    and "sink_open (dispatch tn s)"
    and "capturedSessionId (fst (dispatch tn s)) = capturedSessionId (fst s)"
proof -
  obtain r w where s: "s = (r, w)" by (cases s)
  obtain t n where tn: "tn = (t, n)" by (cases tn)
  have o1: "sink_open (r\<lparr>outputBuffer := outputBuffer r @ c\<rparr>, w\<lparr>clock := t\<rparr>)" for c
    using assms(2) by (simp add: s sink_open_def)
  have o2: "sink_open (r\<lparr>errorBuffer := errorBuffer r @ c\<rparr>, w\<lparr>clock := t\<rparr>)" for c
    using assms(2) by (simp add: s sink_open_def)
  have s1: "sent (r\<lparr>outputBuffer := outputBuffer r @ c\<rparr>, w\<lparr>clock := t\<rparr>) = sent s" for c
    by (simp add: s sent_def)
  have s2: "sent (r\<lparr>errorBuffer := errorBuffer r @ c\<rparr>, w\<lparr>clock := t\<rparr>) = sent s" for c
    by (simp add: s sent_def)
  show "sent (dispatch tn s) = sent s @ chunk_messages (capturedSessionId (fst s)) [tn]"
    using assms(1) emit_open [OF o1] emit_open [OF o2] s1 s2
    by (cases n) (simp_all add: s tn dispatch_def on_stdout_def on_stderr_def)
  show "sink_open (dispatch tn s)"
    using assms(1) emit_open [OF o1] emit_open [OF o2]
    by (cases n) (simp_all add: s tn dispatch_def on_stdout_def on_stderr_def)
  show "capturedSessionId (fst (dispatch tn s)) = capturedSessionId (fst s)"
    using assms(1)
    by (cases n) (simp_all add: s tn dispatch_def on_stdout_def on_stderr_def emit_run_fields)
qed

lemma run_events_chunks_open:
  assumes "list_all (\<lambda>tn. is_chunk (snd tn)) pre" "sink_open s"
  shows "sent (run_events pre s) = sent s @ chunk_messages (capturedSessionId (fst s)) pre \<and>
         sink_open (run_events pre s) \<and>
         capturedSessionId (fst (run_events pre s)) = capturedSessionId (fst s)"
  using assms
proof (induction pre arbitrary: s)
  case Nil
  then show ?case by simp
next
  case (Cons tn pre)
  then have c: "is_chunk (snd tn)" and rest: "list_all (\<lambda>tn. is_chunk (snd tn)) pre"
    by simp_all
  note d = dispatch_chunk_open [OF c Cons.prems(2)]
  show ?case
    using Cons.IH [OF rest d(2)] d(1) d(3) chunk_messages_Cons [of "capturedSessionId (fst s)" tn pre]
    by simp
qed

lemma cleanup_temp_clock: "clock (cleanup_temp d w) = clock w"
  by (simp add: cleanup_temp_def split: option.splits sum.splits)

lemma unregister_session_clock: "clock (unregister_session sid w) = clock w"
  by (simp add: unregister_session_def split: option.splits)

lemma settle_ws: "ws (settle out r) = ws r"
  by (simp add: settle_def)

lemma sent_settle: "sent (settle out r, w) = sent (r, w)"
  by (simp add: sent_def settle_ws)

lemma sent_world: "sent (r, w) = sent (r, w')"
  by (simp add: sent_def)

lemma on_close_sent:
  "sent (on_close code (r, w)) =
   sent (emit ''Error sending completion message:''
          (QComplete (capturedSessionId r) code (clock w))
          (r, unregister_session (capturedSessionId r) (cleanup_temp (tempDir r) w)))"
  unfolding on_close_def
  by (simp add: Let_def split_def sent_settle cleanup_temp_clock unregister_session_clock)

lemma on_error_sent:
  "sent (on_error msg (r, w)) =
   sent (emit ''Error sending WebSocket error message:''
          (QErrorMessage msg (capturedSessionId r) (clock w))
          (r, unregister_session (capturedSessionId r)
                (cleanup_temp (tempDir r) (w\<lparr>console := console w @ [''Q process error:'']\<rparr>))))"
  unfolding on_error_def
  by (simp add: Let_def split_def sent_settle cleanup_temp_clock unregister_session_clock)

lemma sink_open_world: "sink_open (r, w) = sink_open (r, w')"
  by (simp add: sink_open_def)

lemma on_close_open:
  assumes "sink_open (r, w)"
  shows "sent (on_close code (r, w)) = sent (r, w) @ [QComplete (capturedSessionId r) code (clock w)]"
proof -
  define w2 where "w2 = unregister_session (capturedSessionId r) (cleanup_temp (tempDir r) w)"
  have o: "sink_open (r, w2)" using assms by (simp add: sink_open_def)
  have e: "sent (r, w2) = sent (r, w)" by (simp add: sent_def)
  show ?thesis
    using emit_open [OF o] e by (simp add: on_close_sent w2_def [symmetric])
qed

lemma on_error_open:
  assumes "sink_open (r, w)"
  shows "sent (on_error msg (r, w)) = sent (r, w) @ [QErrorMessage msg (capturedSessionId r) (clock w)]"
proof -
  define w2 where "w2 = unregister_session (capturedSessionId r)
                (cleanup_temp (tempDir r) (w\<lparr>console := console w @ [''Q process error:'']\<rparr>))"
  have o: "sink_open (r, w2)" using assms by (simp add: sink_open_def)
  have e: "sent (r, w2) = sent (r, w)" by (simp add: sent_def)
  show ?thesis
    using emit_open [OF o] e by (simp add: on_error_sent w2_def [symmetric])
qed

lemma mark_exited_clock: "clock (mark_exited pid w) = clock w"
  by (simp add: mark_exited_def split: option.splits)

lemma process_images_clock:
  "clock (snd (snd (snd (process_images c imgs wdir as w)))) = clock w"
  unfolding process_images_def
  by (simp add: Let_def split: option.splits sum.splits prod.splits)

lemma register_session_clock: "clock (register_session sid pid w) = clock w"
  by (simp add: register_session_def split: option.splits)

lemma spawn_clock: "clock (snd (spawn as wdir w)) = clock w"
  by (simp add: spawn_def Let_def)

text \<open>What the socket holds when \<open>spawnQ\<close> returns.\<close>

lemma spawnQ_sent:
  "sent (spawnQ command opts sock w) =
     (case sock of
        None \<Rightarrow> []
      | Some k \<Rightarrow>
          delivered k @
          (if readyState k = 1 \<and> \<not> send_throws k
           then [SessionCreated (session_or_fresh (sessionId opts) (clock w)) (clock w)]
           else []))"
  unfolding spawnQ_def
  by (simp add: Let_def split_def send_session_created_def sent_def register_session_clock
      spawn_clock process_images_clock split: option.splits)

lemma spawnQ_ws_state:
  "map_option readyState (ws (fst (spawnQ command opts sock w))) = map_option readyState sock"
  "map_option send_throws (ws (fst (spawnQ command opts sock w))) = map_option send_throws sock"
  unfolding spawnQ_def
  by (simp_all add: Let_def split_def send_session_created_def split: option.splits)

lemma spawnQ_sink_open:
  "readyState k = 1 \<Longrightarrow> \<not> send_throws k \<Longrightarrow> sink_open (spawnQ command opts (Some k) w)"
  using spawnQ_ws_state [of command opts "Some k" w]
  by (auto simp: sink_open_def split: option.splits)

text \<open>
  Claim C3, as amended. Every message is sent under the guard
  \<open>ws && ws.readyState === 1\<close>, so the claim holds for a socket that is open and accepts
  what it is sent. For such a socket, when the notifications of a run are chunks
  followed by \<open>close\<close>, the socket receives exactly: one \<open>session-created\<close> message, then
  one \<open>q-output\<close> or \<open>q-error\<close> message per chunk in the order of arrival, then one
  \<open>q-complete\<close> message with the exit code. When the first notification is \<open>error\<close> (the
  process did not launch), handling it adds one \<open>q-error\<close> message with the error text
  after \<open>session-created\<close>, and no \<open>q-complete\<close> message.
\<close>

theorem open_sink_receives_created_chunks_complete:
  assumes "readyState k = 1" and "\<not> send_throws k"
    and "list_all (\<lambda>tn. is_chunk (snd tn)) pre"
  shows
    "sent (run_events (pre @ [(t, Close code)]) (spawnQ command opts (Some k) w)) =
       delivered k @
       [SessionCreated (session_or_fresh (sessionId opts) (clock w)) (clock w)] @
       chunk_messages (sessionId opts) pre @
       [QComplete (sessionId opts) code t] \<and>
     sent (run_events [(t, ProcessError msg)] (spawnQ command opts (Some k) w)) =
       delivered k @
       [SessionCreated (session_or_fresh (sessionId opts) (clock w)) (clock w),
        QErrorMessage msg (sessionId opts) t]"
proof -
  define s0 where "s0 = spawnQ command opts (Some k) w"
  have o0: "sink_open s0"
    using spawnQ_sink_open [OF assms(1,2)] by (simp add: s0_def)
  have c0: "capturedSessionId (fst s0) = sessionId opts"
    by (simp add: s0_def spawnQ_run_fields)
  have t0: "sent s0 = delivered k @
      [SessionCreated (session_or_fresh (sessionId opts) (clock w)) (clock w)]"
    using assms(1,2) by (simp add: s0_def spawnQ_sent)
  define s1 where "s1 = run_events pre s0"
  note p = run_events_chunks_open [OF assms(3) o0]
  obtain r1 w1 where s1: "s1 = (r1, w1)" by (cases s1)
  have o1: "sink_open (r1, mark_exited (qProcess r1) (w1\<lparr>clock := t\<rparr>))"
    using p sink_open_world [of r1 w1] by (simp add: s1_def [symmetric] s1)
  have "sent (run_events (pre @ [(t, Close code)]) s0) =
        sent (on_close code (r1, mark_exited (qProcess r1) (w1\<lparr>clock := t\<rparr>)))"
    by (simp add: run_events_append s1_def [symmetric] s1 dispatch_def)
  also have "\<dots> = sent s1 @ [QComplete (capturedSessionId r1) code t]"
  proof -
    have "sent (r1, mark_exited (qProcess r1) (w1\<lparr>clock := t\<rparr>)) = sent s1"
      by (simp add: s1 sent_def)
    then show ?thesis
      using on_close_open [OF o1] by (simp add: mark_exited_clock)
  qed
  finally have a: "sent (run_events (pre @ [(t, Close code)]) s0) =
      delivered k @
       [SessionCreated (session_or_fresh (sessionId opts) (clock w)) (clock w)] @
       chunk_messages (sessionId opts) pre @ [QComplete (sessionId opts) code t]"
    using p c0 t0 by (simp add: s1_def [symmetric] s1)
  obtain r0 w0 where s0: "s0 = (r0, w0)" by (cases s0)
  have o0': "sink_open (r0, mark_exited (qProcess r0) (w0\<lparr>clock := t\<rparr>))"
    using o0 sink_open_world [of r0 w0] by (simp add: s0)
  have "sent (run_events [(t, ProcessError msg)] s0) =
        sent (on_error msg (r0, mark_exited (qProcess r0) (w0\<lparr>clock := t\<rparr>)))"
    by (simp add: s0 dispatch_def)
  also have "\<dots> = sent s0 @ [QErrorMessage msg (capturedSessionId r0) t]"
  proof -
    have "sent (r0, mark_exited (qProcess r0) (w0\<lparr>clock := t\<rparr>)) = sent s0"
      by (simp add: s0 sent_def)
    then show ?thesis
      using on_error_open [OF o0'] by (simp add: mark_exited_clock)
  qed
  finally have b: "sent (run_events [(t, ProcessError msg)] s0) =
      delivered k @
       [SessionCreated (session_or_fresh (sessionId opts) (clock w)) (clock w),
        QErrorMessage msg (sessionId opts) t]"
    using c0 t0 by (simp add: s0)
  show ?thesis using a b by (simp add: s0_def)
qed


theorem open_sink_receives_created_chunks_complete_witness:
  "readyState open_socket = 1 \<and> \<not> send_throws open_socket \<and>
   list_all (\<lambda>tn. is_chunk (snd tn)) [(50, StdoutData ''hi''), (51, StderrData ''warn'')] \<and>
   sent (run_events ([(50, StdoutData ''hi''), (51, StderrData ''warn'')] @ [(60, Close (Some 0))])
          (spawnQ ''describe'' example_options (Some open_socket) example_world)) =
     [SessionCreated ''s1'' 42, QOutput ''hi'' (Some ''s1'') 50,
      QErrorData ''warn'' (Some ''s1'') 51, QComplete (Some ''s1'') (Some 0) 60] \<and>
   sent (run_events [(60, ProcessError ''spawn q ENOENT'')]
          (spawnQ ''describe'' example_options (Some open_socket) example_world)) =
     [SessionCreated ''s1'' 42, QErrorMessage ''spawn q ENOENT'' (Some ''s1'') 60]"
proof -
  have h1: "readyState open_socket = 1" and h2: "\<not> send_throws open_socket"
    by (simp_all add: open_socket_def)
  have h3: "list_all (\<lambda>tn. is_chunk (snd tn)) [(50, StdoutData ''hi''), (51, StderrData ''warn'')]"
    by simp
  show ?thesis
    using h1 h2 h3
      open_sink_receives_created_chunks_complete [OF h1 h2 h3, of 60 "Some 0" "''describe''"
        example_options example_world "''spawn q ENOENT''"]
    by (simp add: open_socket_def example_options_def example_world_def session_or_fresh_def
        truthy_def)
qed

text \<open>
  The claim as stated fails when the socket closes during the run: the process launches,
  writes a chunk and exits with code 0, the promise is resolved, and the socket has
  received no \<open>q-complete\<close> message.
\<close>

theorem closed_sink_misses_complete_counterexample:
  "sent (run_events [(50, StdoutData ''hi''), (55, SocketState 3), (60, Close (Some 0))]
          (spawnQ ''describe'' example_options (Some open_socket) example_world)) =
     [SessionCreated ''s1'' 42, QOutput ''hi'' (Some ''s1'') 50] \<and>
   settled (fst (run_events [(50, StdoutData ''hi''), (55, SocketState 3), (60, Close (Some 0))]
                  (spawnQ ''describe'' example_options (Some open_socket) example_world))) =
     Some (Resolved True ''hi'' (Some ''s1''))"
  by code_simp

subsection \<open>Staging and cleanup\<close>

lemma writeFile_dirs: "writeFile p b fs = Inr fs' \<Longrightarrow> dirs fs' = dirs fs"
  by (auto simp: writeFile_def split: if_splits)

lemma save_images_dirs:
  "save_images tdir i imgs paths fs con = (e, paths', fs', con') \<Longrightarrow> dirs fs' = dirs fs"
proof (induction imgs arbitrary: i paths fs con)
  case Nil
  then show ?case by simp
next
  case (Cons img imgs)
  then show ?case
    by (auto simp: Let_def split: option.splits sum.splits prod.splits dest: writeFile_dirs)
qed

lemma save_images_paths_under:
  "save_images tdir i imgs paths fs con = (e, paths', fs', con') \<Longrightarrow>
   list_all (under tdir) paths \<Longrightarrow> list_all (under tdir) paths'"
proof (induction imgs arbitrary: i paths fs con)
  case Nil
  then show ?case by simp
next
  case (Cons img imgs)
  then show ?case
    by (auto simp: under_def Let_def split: option.splits sum.splits prod.splits)
qed

lemma self_in_ancestors: "p \<noteq> [] \<Longrightarrow> p \<in> set (ancestors p)"
proof -
  assume "p \<noteq> []"
  then have "length p \<in> set [1..<Suc (length p)]"
    by (cases p) auto
  then have "take (length p) p \<in> set (ancestors p)"
    unfolding ancestors_def by (simp only: set_map image_eqI)
  then show ?thesis by simp
qed

lemma mkdir_p_creates: "mkdir_p p fs = Inr fs' \<Longrightarrow> p \<noteq> [] \<Longrightarrow> p \<in> dirs fs'"
  using self_in_ancestors [of p] by (auto simp: mkdir_p_def split: if_splits)

lemma image_dir_nonempty: "image_dir wdir now \<noteq> []"
  by (simp add: image_dir_def)

text \<open>Staged paths lie in the staging directory, and exist only if it was created.\<close>

lemma process_images_staged:
  assumes "process_images c imgs wdir as w = (tdir, paths, as', w')"
  shows "paths = [] \<or> (\<exists>d. tdir = Some d \<and> d \<in> dirs (fsys w') \<and> list_all (under d) paths)"
proof (cases imgs)
  case None
  with assms show ?thesis by (simp add: process_images_def)
next
  case (Some imgs0)
  show ?thesis
  proof (cases "mkdir_p (image_dir wdir (clock w)) (fsys w)")
    case (Inl e)
    with assms Some show ?thesis
      by (auto simp: process_images_def Let_def split: if_splits)
  next
    case (Inr fs1)
    obtain e ps fs2 con where sv:
      "save_images (image_dir wdir (clock w)) 0 imgs0 [] fs1 (console w) = (e, ps, fs2, con)"
      by (cases "save_images (image_dir wdir (clock w)) 0 imgs0 [] fs1 (console w)") auto
    have d: "image_dir wdir (clock w) \<in> dirs fs2"
      using save_images_dirs [OF sv] mkdir_p_creates [OF Inr image_dir_nonempty] by simp
    have u: "list_all (under (image_dir wdir (clock w))) ps"
      using save_images_paths_under [OF sv] by simp
    show ?thesis
      using assms Some Inr sv d u
      by (cases e) (auto simp: process_images_def Let_def split: if_splits)
  qed
qed

lemma rmdir_rec_removes:
  "rmdir_rec d fs = Inr fs' \<Longrightarrow> d \<notin> dirs fs' \<and> (\<forall>q. under d q \<longrightarrow> files fs' q = None)"
  by (auto simp: rmdir_rec_def under_def split: if_splits)

lemma cleanup_temp_removes_dir:
  "d \<notin> dirs (fsys (cleanup_temp (Some d) w))"
  by (auto simp: cleanup_temp_def rmdir_rec_def under_def split: sum.splits if_splits)

lemma cleanup_temp_removes_files:
  "d \<in> dirs (fsys w) \<Longrightarrow> under d q \<Longrightarrow> files (fsys (cleanup_temp (Some d) w)) q = None"
  by (auto simp: cleanup_temp_def rmdir_rec_def split: sum.splits if_splits)

lemma emit_sent:
  "sent (emit l m s) = sent s @ (if sink_open s then [m] else [])"
  by (cases s) (auto simp: emit_def sink_open_def sent_def split: option.splits)

lemma emit_world_fields:
  "fsys (snd (emit l m s)) = fsys (snd s)"
  "activeQProcesses (snd (emit l m s)) = activeQProcesses (snd s)"
  "children (snd (emit l m s)) = children (snd s)"
  by (cases s; simp add: emit_def split: option.splits)+

lemma unregister_session_fields:
  "fsys (unregister_session sid w) = fsys w"
  "children (unregister_session sid w) = children w"
  by (simp_all add: unregister_session_def split: option.splits)

lemma cleanup_temp_fields:
  "activeQProcesses (cleanup_temp d w) = activeQProcesses w"
  "children (cleanup_temp d w) = children w"
  by (simp_all add: cleanup_temp_def split: option.splits sum.splits)

lemma mark_exited_fields:
  "fsys (mark_exited pid w) = fsys w"
  "activeQProcesses (mark_exited pid w) = activeQProcesses w"
  by (simp_all add: mark_exited_def split: option.splits)

lemma on_error_fsys:
  "fsys (snd (on_error msg (r, w))) = fsys (cleanup_temp (tempDir r) w)"
  unfolding on_error_def
  by (simp add: Let_def split_def emit_world_fields unregister_session_fields)
     (simp add: cleanup_temp_def split: option.splits sum.splits)

lemma on_error_registry:
  "activeQProcesses (snd (on_error msg (r, w))) =
   activeQProcesses (unregister_session (capturedSessionId r) w)"
  unfolding on_error_def
  by (simp add: Let_def split_def emit_world_fields)
     (simp add: unregister_session_def cleanup_temp_fields split: option.splits)

lemma on_error_settled:
  "settled r = None \<Longrightarrow> settled (fst (on_error msg (r, w))) = Some (Rejected (Error msg))"
  unfolding on_error_def
  by (simp add: Let_def split_def settle_def emit_run_fields)

lemma on_close_registry:
  "activeQProcesses (snd (on_close code (r, w))) =
   activeQProcesses (unregister_session (capturedSessionId r) w)"
  unfolding on_close_def
  by (simp add: Let_def split_def emit_world_fields)
     (simp add: unregister_session_def cleanup_temp_fields split: option.splits)

lemma send_session_created_world_fields:
  "fsys (snd (send_session_created s)) = fsys (snd s)"
  "activeQProcesses (snd (send_session_created s)) = activeQProcesses (snd s)"
  by (cases s; simp add: send_session_created_def Let_def split: option.splits)+

lemma register_session_fsys: "fsys (register_session sid pid w) = fsys w"
  by (simp add: register_session_def split: option.splits)

lemma spawn_fields:
  "fsys (snd (spawn as wdir w)) = fsys w"
  "activeQProcesses (snd (spawn as wdir w)) = activeQProcesses w"
  "console (snd (spawn as wdir w)) = console w"
  by (simp_all add: spawn_def Let_def)

lemma process_images_registry:
  "activeQProcesses (snd (snd (snd (process_images c imgs wdir as w)))) = activeQProcesses w"
  unfolding process_images_def
  by (simp add: Let_def split: option.splits sum.splits prod.splits)

text \<open>The staging results of \<open>spawnQ\<close> are those of its image block.\<close>

lemma spawnQ_staging:
  assumes "process_images command (images opts) (working_dir opts w) (first_args command) w =
           (tdir, paths, as', w1)"
  shows "tempDir (fst (spawnQ command opts sock w)) = tdir"
    and "tempImagePaths (fst (spawnQ command opts sock w)) = paths"
    and "fsys (snd (spawnQ command opts sock w)) = fsys w1"
  unfolding spawnQ_def
  by (simp_all add: assms Let_def split_def send_session_created_run_fields
      send_session_created_world_fields register_session_fsys spawn_fields)

lemma spawnQ_staged:
  "tempImagePaths (fst (spawnQ command opts sock w)) = [] \<or>
   (\<exists>d. tempDir (fst (spawnQ command opts sock w)) = Some d \<and>
        d \<in> dirs (fsys (snd (spawnQ command opts sock w))) \<and>
        list_all (under d) (tempImagePaths (fst (spawnQ command opts sock w))))"
proof -
  obtain tdir paths as' w1 where pi:
    "process_images command (images opts) (working_dir opts w) (first_args command) w =
     (tdir, paths, as', w1)"
    by (cases "process_images command (images opts) (working_dir opts w) (first_args command) w")
       auto
  show ?thesis
    using process_images_staged [OF pi] spawnQ_staging [OF pi, of sock] by simp
qed

lemma spawnQ_sink_open_iff:
  "sink_open (spawnQ command opts sock w) =
   (case sock of None \<Rightarrow> False | Some k \<Rightarrow> readyState k = 1 \<and> \<not> send_throws k)"
  using spawnQ_ws_state [of command opts sock w]
  by (cases sock; cases "ws (fst (spawnQ command opts sock w))") (auto simp: sink_open_def)

subsection \<open>Malformed attachments\<close>

lemma length_expected_paths:
  "length (expected_paths tdir i imgs) = length (filter well_formed imgs)"
  by (induction imgs arbitrary: i) (auto simp: well_formed_def split: option.splits)

lemma save_images_all_written:
  assumes "tdir \<in> dirs fs" and "\<forall>name. tdir @ [name] \<notin> dirs fs"
    and "list_all string_payload imgs"
  shows "\<exists>fs'. save_images tdir i imgs paths fs con =
           (None, paths @ expected_paths tdir i imgs, fs',
            con @ replicate (length (filter (\<lambda>img. \<not> well_formed img) imgs))
                    ''Invalid image data format'') \<and>
         dirs fs' = dirs fs \<and>
         dom (files fs') = dom (files fs) \<union> set (expected_paths tdir i imgs)"
  using assms
proof (induction imgs arbitrary: i paths fs con)
  case Nil
  then show ?case by simp
next
  case (Cons img imgs)
  have rest: "list_all string_payload imgs"
    using Cons.prems(3) by simp
  from Cons.prems(3) obtain d where d: "data img = Some d"
    by (auto simp: string_payload_def)
  show ?case
  proof (cases "match_data_url d")
    case None
    from Cons.IH [OF Cons.prems(1,2) rest, of "Suc i" paths "con @ [''Invalid image data format'']"]
    show ?thesis
      using None d by (simp add: well_formed_def replicate_app_Cons_same)
  next
    case (Some mb)
    obtain m b where mb: "mb = (m, b)" by (cases mb)
    define p where "p = tdir @ [image_filename i (extension_of m)]"
    define fs1 where "fs1 = fs\<lparr>files := (files fs)(p \<mapsto> Base64 b)\<rparr>"
    have w: "writeFile p (Base64 b) fs = Inr fs1"
      using Cons.prems(1,2) by (simp add: writeFile_def p_def fs1_def)
    have d1: "tdir \<in> dirs fs1" "\<forall>name. tdir @ [name] \<notin> dirs fs1"
      using Cons.prems(1,2) by (simp_all add: fs1_def)
    from Cons.IH [OF d1 rest, of "Suc i" "paths @ [p]" con]
    obtain fs' where
      s: "save_images tdir (Suc i) imgs (paths @ [p]) fs1 con =
           (None, (paths @ [p]) @ expected_paths tdir (Suc i) imgs, fs',
            con @ replicate (length (filter (\<lambda>img. \<not> well_formed img) imgs))
                    ''Invalid image data format'')"
      and e: "dirs fs' = dirs fs1"
      and f: "dom (files fs') = dom (files fs1) \<union> set (expected_paths tdir (Suc i) imgs)"
      by blast
    have "save_images tdir i (img # imgs) paths fs con =
          save_images tdir (Suc i) imgs (paths @ [p]) fs1 con"
      using Some w d by (simp add: mb p_def [symmetric])
    then show ?thesis
      using s e f Some d
      by (auto simp: mb p_def [symmetric] well_formed_def fs1_def)
  qed
qed

lemma mkdir_p_success:
  "\<not> list_ex (\<lambda>q. files fs q \<noteq> None) (ancestors p) \<Longrightarrow>
   mkdir_p p fs = Inr (fs\<lparr>dirs := dirs fs \<union> set (ancestors p)\<rparr>)"
  by (simp add: mkdir_p_def)

lemma child_not_ancestor: "tdir @ [name] \<notin> set (ancestors tdir)"
  by (auto simp: ancestors_def dest!: arg_cong [where f = length])

lemma process_images_all_written:
  assumes h1: "\<not> list_ex (\<lambda>q. files (fsys w) q \<noteq> None) (ancestors (image_dir wdir (clock w)))"
    and h2: "\<forall>name. image_dir wdir (clock w) @ [name] \<notin> dirs (fsys w)"
    and h3: "list_all string_payload imgs"
  shows "\<exists>tdir as' w'. process_images c (Some imgs) wdir as w =
           (tdir, expected_paths (image_dir wdir (clock w)) 0 imgs, as', w') \<and>
         dom (files (fsys w')) =
           dom (files (fsys w)) \<union> set (expected_paths (image_dir wdir (clock w)) 0 imgs) \<and>
         console w' = console w @
           replicate (length (filter (\<lambda>img. \<not> well_formed img) imgs))
             ''Invalid image data format''"
proof (cases "imgs = []")
  case True
  then show ?thesis by (simp add: process_images_def)
next
  case False
  define tdir where "tdir = image_dir wdir (clock w)"
  define fs1 where "fs1 = (fsys w)\<lparr>dirs := dirs (fsys w) \<union> set (ancestors tdir)\<rparr>"
  have m: "mkdir_p tdir (fsys w) = Inr fs1"
    using mkdir_p_success [OF h1] by (simp add: tdir_def fs1_def)
  have d: "tdir \<in> dirs fs1"
    using self_in_ancestors [OF image_dir_nonempty, of wdir "clock w"]
    by (simp add: fs1_def tdir_def)
  have n: "\<forall>name. tdir @ [name] \<notin> dirs fs1"
    using h2 child_not_ancestor [of tdir] by (simp add: fs1_def tdir_def)
  from save_images_all_written [OF d n h3, of 0 "[]" "console w"]
  obtain fs2 where
    s: "save_images tdir 0 imgs [] fs1 (console w) =
         (None, expected_paths tdir 0 imgs, fs2,
          console w @ replicate (length (filter (\<lambda>img. \<not> well_formed img) imgs))
                        ''Invalid image data format'')"
    and f: "dom (files fs2) = dom (files fs1) \<union> set (expected_paths tdir 0 imgs)"
    by auto
  have f1: "files fs1 = files (fsys w)" by (simp add: fs1_def)
  show ?thesis
    using False m s f f1
    by (simp add: process_images_def Let_def tdir_def [symmetric])
qed

lemma send_session_created_console:
  "console (snd (send_session_created s)) = console (snd s) \<or>
   console (snd (send_session_created s)) =
     console (snd s) @ [''Error sending session-created message:'']"
  by (cases s) (simp add: send_session_created_def Let_def split: option.splits)

lemma register_session_console: "console (register_session sid pid w) = console w"
  by (simp add: register_session_def split: option.splits)

lemma spawnQ_console:
  assumes "process_images command (images opts) (working_dir opts w) (first_args command) w =
           (tdir, paths, as', w1)"
  shows "\<exists>extra. console (snd (spawnQ command opts sock w)) = console w1 @ extra \<and>
           diagnostics extra = 0"
proof -
  define pw where "pw = spawn (as' @ [''--verbose'']) (working_dir opts w) w1"
  define w3 where "w3 = register_session (sessionId opts) (fst pw) (snd pw)"
  have c3: "console w3 = console w1"
    by (simp add: w3_def pw_def register_session_console spawn_fields)
  have "\<exists>r. spawnQ command opts sock w = send_session_created (r, w3)"
    unfolding spawnQ_def by (simp add: assms Let_def split_def w3_def pw_def) blast
  then obtain r where r: "spawnQ command opts sock w = send_session_created (r, w3)" ..
  from send_session_created_console [of "(r, w3)"]
  have "console (snd (spawnQ command opts sock w)) = console w1 @ [] \<or>
        console (snd (spawnQ command opts sock w)) =
          console w1 @ [''Error sending session-created message:'']"
    by (simp add: r c3)
  moreover have "diagnostics [] = 0" "diagnostics [''Error sending session-created message:''] = 0"
    by (simp_all add: diagnostics_def)
  ultimately show ?thesis by blast
qed

text \<open>The argument vector that \<open>spawnQ\<close> has built when it calls \<open>spawn\<close>.\<close>

lemma spawnQ_args:
  "args (fst (spawnQ command opts sock w)) = first_args command @ [''--verbose'']"
proof -
  obtain tdir paths args1 w1 where pi:
    "process_images command (images opts) (working_dir opts w) (first_args command) w =
     (tdir, paths, args1, w1)"
    by (cases "process_images command (images opts) (working_dir opts w) (first_args command) w")
       auto
  have a: "args1 = first_args command"
    using process_images_args [OF first_args_no_flag, of command "images opts"
        "working_dir opts w" command w] pi
    by simp
  have "args (fst (send_session_created s)) = args (fst s)" for s
    by (cases s) (simp add: send_session_created_def Let_def split: option.splits)
  then show ?thesis
    unfolding spawnQ_def by (simp add: pi a Let_def split_def)
qed

text \<open>
  Claim C6, as amended. The staging loop sits in one \<open>try\<close> block: an exception inside it
  ends staging for all the attachments that follow. So the claim needs two conditions:
  every attachment's \<open>data\<close> is a string, and the staging directory can be created and
  written (no file stands where a directory is needed, and no directory where a file is
  to be written). Then the staged paths are exactly the expected ones: one file per
  well-formed attachment, in order, each a file of the file system afterwards and
  nothing else new; each malformed attachment adds one \<open>Invalid image data format\<close> line
  to the console and is skipped; and staging does not end the run: \<open>spawnQ\<close> goes on to
  the call of \<open>spawn\<close> with the argument vector \<open>chat\<close>, the command if it has text,
  \<open>--verbose\<close>, and the promise is pending.
\<close>

theorem malformed_images_are_skipped_one_by_one:
  assumes "images opts = Some imgs"
    and "list_all string_payload imgs"
    and "\<not> list_ex (\<lambda>q. files (fsys w) q \<noteq> None)
             (ancestors (image_dir (working_dir opts w) (clock w)))"
    and "\<forall>name. image_dir (working_dir opts w) (clock w) @ [name] \<notin> dirs (fsys w)"
  shows "tempImagePaths (fst (spawnQ command opts sock w)) =
           expected_paths (image_dir (working_dir opts w) (clock w)) 0 imgs \<and>
         length (tempImagePaths (fst (spawnQ command opts sock w))) =
           length (filter well_formed imgs) \<and>
         dom (files (fsys (snd (spawnQ command opts sock w)))) =
           dom (files (fsys w)) \<union> set (tempImagePaths (fst (spawnQ command opts sock w))) \<and>
         diagnostics (console (snd (spawnQ command opts sock w))) =
           diagnostics (console w) + length (filter (\<lambda>img. \<not> well_formed img) imgs) \<and>
         args (fst (spawnQ command opts sock w)) = first_args command @ [''--verbose''] \<and>
         settled (fst (spawnQ command opts sock w)) = None"
proof -
  from process_images_all_written [OF assms(3,4,2), of command "first_args command"]
  obtain tdir as' w1 where
    pi: "process_images command (images opts) (working_dir opts w) (first_args command) w =
          (tdir, expected_paths (image_dir (working_dir opts w) (clock w)) 0 imgs, as', w1)"
    and f: "dom (files (fsys w1)) = dom (files (fsys w)) \<union>
            set (expected_paths (image_dir (working_dir opts w) (clock w)) 0 imgs)"
    and c: "console w1 = console w @
           replicate (length (filter (\<lambda>img. \<not> well_formed img) imgs))
             ''Invalid image data format''"
    by (auto simp: assms(1))
  note st = spawnQ_staging [OF pi, of sock]
  from spawnQ_console [OF pi, of sock] obtain extra where
    e: "console (snd (spawnQ command opts sock w)) = console w1 @ extra" "diagnostics extra = 0"
    by blast
  have dg: "diagnostics (console (snd (spawnQ command opts sock w))) =
           diagnostics (console w) + length (filter (\<lambda>img. \<not> well_formed img) imgs)"
    using e by (simp add: c diagnostics_def)
  show ?thesis
    using st f dg
    by (simp add: length_expected_paths spawnQ_args spawnQ_run_fields)
qed

theorem malformed_images_are_skipped_one_by_one_witness:
  "images example_options =
     Some [\<lparr>data = Some ''data:image/png;base64,AAAA''\<rparr>, \<lparr>data = Some ''AAAA''\<rparr>] \<and>
   well_formed \<lparr>data = Some ''data:image/png;base64,AAAA''\<rparr> \<and>
   \<not> well_formed \<lparr>data = Some ''AAAA''\<rparr> \<and>
   tempImagePaths (fst (spawnQ ''describe'' example_options (Some open_socket) example_world)) =
     [[''proj'', ''.tmp'', ''images'', ''42'', ''image_0.png'']] \<and>
   dom (files (fsys (snd (spawnQ ''describe'' example_options (Some open_socket) example_world)))) =
     {[''proj'', ''.tmp'', ''images'', ''42'', ''image_0.png'']} \<and>
   diagnostics (console (snd (spawnQ ''describe'' example_options (Some open_socket)
     example_world))) = 1 \<and>
   args (fst (spawnQ ''describe'' example_options (Some open_socket) example_world)) =
     [''chat'', ''describe'', ''--verbose''] \<and>
   settled (fst (spawnQ ''describe'' example_options (Some open_socket) example_world)) = None"
proof -
  let ?imgs = "[\<lparr>data = Some ''data:image/png;base64,AAAA''\<rparr>, \<lparr>data = Some ''AAAA''\<rparr>]"
  have h0: "images example_options = Some ?imgs"
    by (simp add: example_options_def)
  have hs: "list_all string_payload ?imgs"
    by (simp add: string_payload_def)
  have h1: "\<not> list_ex (\<lambda>q. files (fsys example_world) q \<noteq> None)
             (ancestors (image_dir (working_dir example_options example_world)
                (clock example_world)))"
    by (simp add: example_world_def list_ex_iff)
  have h2: "\<forall>name. image_dir (working_dir example_options example_world)
              (clock example_world) @ [name] \<notin> dirs (fsys example_world)"
    by (simp add: example_world_def image_dir_def)
  have v: "well_formed \<lparr>data = Some ''data:image/png;base64,AAAA''\<rparr>"
      "\<not> well_formed \<lparr>data = Some ''AAAA''\<rparr>"
    by code_simp+
  have e: "expected_paths (image_dir (working_dir example_options example_world)
             (clock example_world)) 0 ?imgs =
           [[''proj'', ''.tmp'', ''images'', ''42'', ''image_0.png'']]"
    by code_simp
  have d: "diagnostics (console example_world) = 0" "dom (files (fsys example_world)) = {}"
    by (simp_all add: example_world_def diagnostics_def)
  have a: "first_args ''describe'' @ [''--verbose''] = [''chat'', ''describe'', ''--verbose'']"
    by code_simp
  note T = malformed_images_are_skipped_one_by_one [OF h0 hs h1 h2, of "''describe''"
      "Some open_socket"]
  have p: "tempImagePaths (fst (spawnQ ''describe'' example_options (Some open_socket)
             example_world)) = [[''proj'', ''.tmp'', ''images'', ''42'', ''image_0.png'']]"
    using T [THEN conjunct1] unfolding e .
  have f: "dom (files (fsys (snd (spawnQ ''describe'' example_options (Some open_socket)
             example_world)))) = {[''proj'', ''.tmp'', ''images'', ''42'', ''image_0.png'']}"
    using T [THEN conjunct2, THEN conjunct2, THEN conjunct1] unfolding p d by simp
  have g: "diagnostics (console (snd (spawnQ ''describe'' example_options (Some open_socket)
     example_world))) = 1"
    using T [THEN conjunct2, THEN conjunct2, THEN conjunct2, THEN conjunct1] v
    unfolding d by simp
  note r = T [THEN conjunct2, THEN conjunct2, THEN conjunct2, THEN conjunct2]
  have q: "args (fst (spawnQ ''describe'' example_options (Some open_socket) example_world)) =
     [''chat'', ''describe'', ''--verbose'']"
    using r [THEN conjunct1] unfolding a .
  show ?thesis
    apply (intro conjI)
           apply (rule h0)
          apply (rule v(1))
         apply (rule v(2))
        apply (rule p)
       apply (rule f)
      apply (rule g)
     apply (rule q)
    apply (rule r [THEN conjunct2])
    done
qed

text \<open>
  The claim as stated fails in two ways, each with one well-formed attachment and one
  that is not. When a file named \<open>.tmp\<close> stands in the project directory, \<open>mkdir\<close> fails
  before the loop: nothing is staged and no attachment is reported, the console holds
  the one line of the \<open>catch\<close>. When the first attachment has no \<open>data\<close>,
  \<open>image.data.match\<close> throws: the well-formed attachment after it is not staged, and
  again the console holds only the line of the \<open>catch\<close>.
\<close>

theorem staging_ends_at_first_exception_counterexample:
  "map well_formed (the (images example_options)) = [True, False] \<and>
   tempImagePaths (fst (spawnQ ''describe'' example_options (Some open_socket) blocked_world)) =
     [] \<and>
   console (snd (spawnQ ''describe'' example_options (Some open_socket) blocked_world)) =
     [''Error processing images for Q:''] \<and>
   map well_formed (the (images untyped_options)) = [False, True] \<and>
   tempImagePaths (fst (spawnQ ''describe'' untyped_options (Some open_socket) example_world)) =
     [] \<and>
   console (snd (spawnQ ''describe'' untyped_options (Some open_socket) example_world)) =
     [''Error processing images for Q:'']"
  by code_simp

subsection \<open>The working directory\<close>

text \<open>
  Claim C7, as amended. The working directory is the \<open>cwd\<close> option when it is supplied
  and not empty, and the server's current directory otherwise; it is handed to \<open>spawn\<close>
  as it is, whether or not it exists: \<open>spawnQ\<close> makes no check. When the request has no
  attachments, \<open>spawnQ\<close> leaves the file system as it was, so it creates no directory.
\<close>

theorem working_directory_used_verbatim:
  "map_option spawncwd (spawned (spawnQ command opts sock w)) =
     Some (case cwd opts of
             None \<Rightarrow> process_cwd w
           | Some d \<Rightarrow> if d \<noteq> [] then d else process_cwd w) \<and>
   (images opts = None \<or> images opts = Some [] \<longrightarrow>
      fsys (snd (spawnQ command opts sock w)) = fsys w)"
proof -
  have "fsys (snd (spawnQ command opts sock w)) = fsys w"
    if "images opts = None \<or> images opts = Some []"
  proof -
    have "process_images command (images opts) (working_dir opts w) (first_args command) w =
          (None, [], first_args command, w)"
      using that by (auto simp: process_images_def)
    from spawnQ_staging(3) [OF this] show ?thesis .
  qed
  then show ?thesis
    by (simp add: spawned_spawnQ working_dir_def)
qed

theorem working_directory_used_verbatim_witness:
  "images plain_options = None \<and>
   map_option spawncwd
     (spawned (spawnQ ''describe'' plain_options (Some open_socket) example_world)) =
     Some [''proj''] \<and>
   fsys (snd (spawnQ ''describe'' plain_options (Some open_socket) example_world)) =
     fsys example_world"
proof -
  have h: "images plain_options = None"
    by (simp add: plain_options_def)
  have c: "cwd plain_options = Some [''proj'']"
    by (simp add: plain_options_def example_options_def)
  note T = working_directory_used_verbatim [of "''describe''" plain_options "Some open_socket"
      example_world]
  have a: "map_option spawncwd
     (spawned (spawnQ ''describe'' plain_options (Some open_socket) example_world)) =
     Some [''proj'']"
    using T [THEN conjunct1] unfolding c by simp
  have b: "fsys (snd (spawnQ ''describe'' plain_options (Some open_socket) example_world)) =
     fsys example_world"
    using T [THEN conjunct2, rule_format, OF disjI1 [OF h]] .
  show ?thesis
    using h a b by (intro conjI)
qed

text \<open>
  The claim as stated fails for a request with an attachment: \<open>mkdir\<close> with
  \<open>recursive: true\<close> creates every missing ancestor of the staging directory, the working
  directory among them. The directory \<open>missing\<close> does not exist before the call, exists
  after it, and is the directory the child is started in.
\<close>

theorem missing_working_directory_is_created_counterexample:
  "[''missing''] \<notin> dirs (fsys example_world) \<and>
   [''missing''] \<in>
     dirs (fsys (snd (spawnQ ''describe'' missing_dir_options (Some open_socket) example_world))) \<and>
   map_option spawncwd
     (spawned (spawnQ ''describe'' missing_dir_options (Some open_socket) example_world)) =
     Some [''missing'']"
  by code_simp

subsection \<open>A process that does not launch\<close>

text \<open>
  Claim C4, as amended. When the runtime reports that the process could not be launched
  (the \<open>error\<close> notification), the callback leaves no staging directory and none of the
  staged files, removes the session's entry from the registry, and rejects the promise
  with the error. The \<open>q-error\<close> message with the error text is sent under the guard
  \<open>ws && ws.readyState === 1\<close>: the socket receives it exactly when it is open and accepts
  it. In no case does this callback send a \<open>q-complete\<close> message. What a \<open>close\<close>
  notification after the \<open>error\<close> does is not part of the statement.
\<close>

theorem launch_failure_cleans_up_and_rejects:
  "(\<forall>d. tempDir (fst (spawnQ command opts sock w)) = Some d \<longrightarrow>
        d \<notin> dirs (fsys (snd (run_events [(t, ProcessError msg)] (spawnQ command opts sock w))))) \<and>
   (\<forall>p \<in> set (tempImagePaths (fst (spawnQ command opts sock w))).
        files (fsys (snd (run_events [(t, ProcessError msg)] (spawnQ command opts sock w)))) p = None) \<and>
   (\<forall>sid. sessionId opts = Some sid \<and> sid \<noteq> [] \<longrightarrow>
        activeQProcesses (snd (run_events [(t, ProcessError msg)] (spawnQ command opts sock w))) sid
          = None) \<and>
   sent (run_events [(t, ProcessError msg)] (spawnQ command opts sock w)) =
     (case sock of
        None \<Rightarrow> []
      | Some k \<Rightarrow>
          delivered k @
          (if readyState k = 1 \<and> \<not> send_throws k
           then [SessionCreated (session_or_fresh (sessionId opts) (clock w)) (clock w),
                 QErrorMessage msg (sessionId opts) t]
           else [])) \<and>
   settled (fst (run_events [(t, ProcessError msg)] (spawnQ command opts sock w))) =
     Some (Rejected (Error msg))"
proof -
  obtain r0 w0 where s0: "spawnQ command opts sock w = (r0, w0)"
    by (cases "spawnQ command opts sock w")
  define wm where "wm = mark_exited (qProcess r0) (w0\<lparr>clock := t\<rparr>)"
  have run: "run_events [(t, ProcessError msg)] (spawnQ command opts sock w) = on_error msg (r0, wm)"
    by (simp add: s0 dispatch_def wm_def)
  have fm: "fsys wm = fsys w0" and cm: "clock wm = t"
    by (simp_all add: wm_def mark_exited_fields mark_exited_clock)
  have f: "capturedSessionId r0 = sessionId opts" "settled r0 = None"
    using spawnQ_run_fields [of command opts sock w] by (simp_all add: s0)
  have a: "tempDir r0 = Some d \<longrightarrow> d \<notin> dirs (fsys (snd (on_error msg (r0, wm))))" for d
    using cleanup_temp_removes_dir [of d wm] by (auto simp: on_error_fsys)
  have b: "\<forall>p \<in> set (tempImagePaths r0). files (fsys (snd (on_error msg (r0, wm)))) p = None"
  proof
    fix p assume p: "p \<in> set (tempImagePaths r0)"
    with spawnQ_staged [of command opts sock w] obtain d where
      d: "tempDir r0 = Some d" "d \<in> dirs (fsys w0)" "list_all (under d) (tempImagePaths r0)"
      by (auto simp: s0)
    from d(3) p have "under d p" by (simp add: list_all_iff)
    then show "files (fsys (snd (on_error msg (r0, wm)))) p = None"
      using cleanup_temp_removes_files [of d wm p] d(1,2) fm by (simp add: on_error_fsys)
  qed
  have c: "sessionId opts = Some sid \<and> sid \<noteq> [] \<longrightarrow>
           activeQProcesses (snd (on_error msg (r0, wm))) sid = None" for sid
    using f(1) by (simp add: on_error_registry unregister_session_def truthy_def)
  have so: "sink_open (r0, w') = (case sock of None \<Rightarrow> False
             | Some k \<Rightarrow> readyState k = 1 \<and> \<not> send_throws k)" for w'
    using spawnQ_sink_open_iff [of command opts sock w] by (simp add: s0 sink_open_def)
  have st: "sent (r0, w') = sent (spawnQ command opts sock w)" for w'
    by (simp add: s0 sent_def)
  have d: "sent (on_error msg (r0, wm)) =
     (case sock of
        None \<Rightarrow> []
      | Some k \<Rightarrow>
          delivered k @
          (if readyState k = 1 \<and> \<not> send_throws k
           then [SessionCreated (session_or_fresh (sessionId opts) (clock w)) (clock w),
                 QErrorMessage msg (sessionId opts) t]
           else []))"
    by (simp add: on_error_sent emit_sent so st spawnQ_sent f(1) cm split: option.splits)
  have e: "settled (fst (on_error msg (r0, wm))) = Some (Rejected (Error msg))"
    using on_error_settled [OF f(2)] by simp
  show ?thesis
    unfolding run using a b c d e by (simp add: s0)
qed

theorem launch_failure_cleans_up_and_rejects_witness:
  "tempDir (fst (spawnQ ''describe'' example_options (Some open_socket) example_world)) =
     Some [''proj'', ''.tmp'', ''images'', ''42''] \<and>
   [''proj'', ''.tmp'', ''images'', ''42''] \<in>
     dirs (fsys (snd (spawnQ ''describe'' example_options (Some open_socket) example_world))) \<and>
   [''proj'', ''.tmp'', ''images'', ''42''] \<notin>
     dirs (fsys (snd (run_events [(60, ProcessError ''spawn q ENOENT'')]
       (spawnQ ''describe'' example_options (Some open_socket) example_world)))) \<and>
   [''proj'', ''.tmp'', ''images'', ''42'', ''image_0.png''] \<in>
     set (tempImagePaths (fst (spawnQ ''describe'' example_options (Some open_socket) example_world))) \<and>
   files (fsys (snd (run_events [(60, ProcessError ''spawn q ENOENT'')]
       (spawnQ ''describe'' example_options (Some open_socket) example_world))))
     [''proj'', ''.tmp'', ''images'', ''42'', ''image_0.png''] = None \<and>
   sessionId example_options = Some ''s1'' \<and>
   activeQProcesses (snd (spawnQ ''describe'' example_options (Some open_socket) example_world))
     ''s1'' = Some 0 \<and>
   activeQProcesses (snd (run_events [(60, ProcessError ''spawn q ENOENT'')]
       (spawnQ ''describe'' example_options (Some open_socket) example_world))) ''s1'' = None \<and>
   sent (run_events [(60, ProcessError ''spawn q ENOENT'')]
       (spawnQ ''describe'' example_options (Some open_socket) example_world)) =
     [SessionCreated ''s1'' 42, QErrorMessage ''spawn q ENOENT'' (Some ''s1'') 60] \<and>
   settled (fst (run_events [(60, ProcessError ''spawn q ENOENT'')]
       (spawnQ ''describe'' example_options (Some open_socket) example_world))) =
     Some (Rejected (Error ''spawn q ENOENT''))"
proof -
  have a: "tempDir (fst (spawnQ ''describe'' example_options (Some open_socket) example_world)) =
     Some [''proj'', ''.tmp'', ''images'', ''42'']"
    by code_simp
  have b: "[''proj'', ''.tmp'', ''images'', ''42''] \<in>
     dirs (fsys (snd (spawnQ ''describe'' example_options (Some open_socket) example_world)))"
    by code_simp
  have c: "[''proj'', ''.tmp'', ''images'', ''42'', ''image_0.png''] \<in>
     set (tempImagePaths (fst (spawnQ ''describe'' example_options (Some open_socket) example_world)))"
    by code_simp
  have d: "sessionId example_options = Some ''s1'' \<and> ''s1'' \<noteq> []"
    by (simp add: example_options_def)
  have e: "activeQProcesses (snd (spawnQ ''describe'' example_options (Some open_socket) example_world))
     ''s1'' = Some 0"
    by code_simp
  note T = launch_failure_cleans_up_and_rejects [of "''describe''" example_options
      "Some open_socket" example_world 60 "''spawn q ENOENT''"]
  from T [THEN conjunct1, rule_format, OF a] have a': "[''proj'', ''.tmp'', ''images'', ''42''] \<notin>
     dirs (fsys (snd (run_events [(60, ProcessError ''spawn q ENOENT'')]
       (spawnQ ''describe'' example_options (Some open_socket) example_world))))"
    .
  from T [THEN conjunct2, THEN conjunct1, rule_format, OF c] have c': "files (fsys (snd (run_events [(60, ProcessError ''spawn q ENOENT'')]
       (spawnQ ''describe'' example_options (Some open_socket) example_world))))
     [''proj'', ''.tmp'', ''images'', ''42'', ''image_0.png''] = None"
    .
  from T [THEN conjunct2, THEN conjunct2, THEN conjunct1, rule_format, OF d] have d': "activeQProcesses (snd (run_events [(60, ProcessError ''spawn q ENOENT'')]
       (spawnQ ''describe'' example_options (Some open_socket) example_world))) ''s1'' = None"
    .
  have s: "session_or_fresh (sessionId example_options) (clock example_world) = ''s1''"
    by code_simp
  from T [THEN conjunct2, THEN conjunct2, THEN conjunct2] have f: "sent (run_events [(60, ProcessError ''spawn q ENOENT'')]
       (spawnQ ''describe'' example_options (Some open_socket) example_world)) =
     [SessionCreated ''s1'' 42, QErrorMessage ''spawn q ENOENT'' (Some ''s1'') 60] \<and>
   settled (fst (run_events [(60, ProcessError ''spawn q ENOENT'')]
       (spawnQ ''describe'' example_options (Some open_socket) example_world))) =
     Some (Rejected (Error ''spawn q ENOENT''))"
    by (simp add: s open_socket_def) (simp add: example_options_def example_world_def)
  show ?thesis
    using a b a' c c' d [THEN conjunct1] e d' f by (intro conjI) simp_all
qed

text \<open>
  The claim as stated fails when the socket is not open: the launch fails, the promise is
  rejected, and no error message is delivered.
\<close>

theorem closed_sink_misses_launch_error_counterexample:
  "sent (run_events [(60, ProcessError ''spawn q ENOENT'')]
          (spawnQ ''describe'' example_options (Some closed_socket) example_world)) = [] \<and>
   settled (fst (run_events [(60, ProcessError ''spawn q ENOENT'')]
          (spawnQ ''describe'' example_options (Some closed_socket) example_world))) =
     Some (Rejected (Error ''spawn q ENOENT''))"
  by code_simp

text \<open>
  The \<open>close\<close> callback does not ask whether \<open>error\<close> came before it. If the runtime
  delivers \<open>close\<close> after the \<open>error\<close> of a failed launch, with the negative error number
  as the code, the socket receives a \<open>q-complete\<close> message after the \<open>q-error\<close> message;
  the promise stays rejected with the launch error.
\<close>

lemma close_after_launch_error_sends_complete:
  "sent (run_events [(60, ProcessError ''spawn q ENOENT''), (61, Close (Some (- 2)))]
          (spawnQ ''describe'' example_options (Some open_socket) example_world)) =
     [SessionCreated ''s1'' 42, QErrorMessage ''spawn q ENOENT'' (Some ''s1'') 60,
      QComplete (Some ''s1'') (Some (- 2)) 61] \<and>
   settled (fst (run_events [(60, ProcessError ''spawn q ENOENT''), (61, Close (Some (- 2)))]
          (spawnQ ''describe'' example_options (Some open_socket) example_world))) =
     Some (Rejected (Error ''spawn q ENOENT''))"
  by code_simp

subsection \<open>A run without a session identifier\<close>

lemma settle_fields:
  "capturedSessionId (settle out r) = capturedSessionId r"
  "ws (settle out r) = ws r"
  by (simp_all add: settle_def)

lemma on_close_captured:
  "capturedSessionId (fst (on_close code (r, w))) = capturedSessionId r"
  unfolding on_close_def
  by (simp add: Let_def split_def emit_run_fields settle_fields)

lemma on_error_captured:
  "capturedSessionId (fst (on_error msg (r, w))) = capturedSessionId r"
  unfolding on_error_def
  by (simp add: Let_def split_def emit_run_fields settle_fields)

lemma deliver_captured:
  "capturedSessionId (fst (deliver n (r, w))) = capturedSessionId r"
  by (cases n)
     (simp_all add: on_stdout_def on_stderr_def on_close_captured on_error_captured
        emit_run_fields)

lemma deliver_registry_without_session:
  "capturedSessionId r = None \<Longrightarrow>
   activeQProcesses (snd (deliver n (r, w))) = activeQProcesses w"
  by (cases n)
     (simp_all add: on_stdout_def on_stderr_def on_close_registry on_error_registry
        emit_world_fields unregister_session_def mark_exited_fields)

lemma emit_sent_run:
  "sent (emit l m (r, w)) = sent (r, w') @ (if sink_open (r, w') then [m] else [])"
  by (simp add: emit_sent) (simp add: sent_def sink_open_def)

lemma deliver_sent_without_session:
  assumes "capturedSessionId r = None"
  shows "\<exists>new. sent (deliver n (r, w)) = sent (r, w) @ new \<and> list_all no_session new"
proof (cases n)
  case (StdoutData x)
  have "sent (deliver n (r, w)) =
        sent (r\<lparr>outputBuffer := outputBuffer r @ x\<rparr>, w) @
        (if sink_open (r\<lparr>outputBuffer := outputBuffer r @ x\<rparr>, w)
         then [QOutput x None (clock w)] else [])"
    by (simp add: StdoutData on_stdout_def emit_sent assms)
  moreover have "sent (r\<lparr>outputBuffer := outputBuffer r @ x\<rparr>, w) = sent (r, w)"
    by (simp add: sent_def)
  ultimately show ?thesis by (simp add: no_session_def)
next
  case (StderrData x)
  have "sent (deliver n (r, w)) =
        sent (r\<lparr>errorBuffer := errorBuffer r @ x\<rparr>, w) @
        (if sink_open (r\<lparr>errorBuffer := errorBuffer r @ x\<rparr>, w)
         then [QErrorData x None (clock w)] else [])"
    by (simp add: StderrData on_stderr_def emit_sent assms)
  moreover have "sent (r\<lparr>errorBuffer := errorBuffer r @ x\<rparr>, w) = sent (r, w)"
    by (simp add: sent_def)
  ultimately show ?thesis by (simp add: no_session_def)
next
  case (Close x)
  have "sent (deliver n (r, w)) =
        sent (r, w) @ (if sink_open (r, w) then [QComplete None x (clock w)] else [])"
    by (simp add: Close on_close_sent assms mark_exited_clock emit_sent_run [where w' = w])
  then show ?thesis by (simp add: no_session_def)
next
  case (ProcessError x)
  have "sent (deliver n (r, w)) =
        sent (r, w) @ (if sink_open (r, w) then [QErrorMessage x None (clock w)] else [])"
    by (simp add: ProcessError on_error_sent assms mark_exited_clock emit_sent_run [where w' = w])
  then show ?thesis by (simp add: no_session_def)
next
  case (SocketState x)
  then show ?thesis
    by (cases "ws r") (simp_all add: sent_def)
qed

lemma run_events_without_session:
  assumes "capturedSessionId (fst s) = None"
  shows "activeQProcesses (snd (run_events tr s)) = activeQProcesses (snd s) \<and>
         (\<exists>new. sent (run_events tr s) = sent s @ new \<and> list_all no_session new)"
  using assms
proof (induction tr arbitrary: s)
  case Nil
  then show ?case by simp
next
  case (Cons tn tr)
  obtain r w where s: "s = (r, w)" by (cases s)
  have c: "capturedSessionId r = None" using Cons.prems by (simp add: s)
  have d: "dispatch tn s = deliver (snd tn) (r, w\<lparr>clock := fst tn\<rparr>)"
    by (simp add: dispatch_def s)
  have d1: "capturedSessionId (fst (dispatch tn s)) = None"
    by (simp add: d deliver_captured c)
  have d2: "activeQProcesses (snd (dispatch tn s)) = activeQProcesses (snd s)"
    unfolding d by (simp add: deliver_registry_without_session [OF c] s)
  have "sent (r, w\<lparr>clock := fst tn\<rparr>) = sent s"
    by (simp add: s sent_def)
  with deliver_sent_without_session [OF c, of "snd tn" "w\<lparr>clock := fst tn\<rparr>"]
  obtain n1 where n1: "sent (dispatch tn s) = sent s @ n1" "list_all no_session n1"
    unfolding d by auto
  from Cons.IH [OF d1] obtain n2 where
    n2: "sent (run_events tr (dispatch tn s)) = sent (dispatch tn s) @ n2" "list_all no_session n2"
    and r: "activeQProcesses (snd (run_events tr (dispatch tn s))) =
            activeQProcesses (snd (dispatch tn s))"
    by blast
  have "sent (run_events (tn # tr) s) = sent s @ (n1 @ n2)" "list_all no_session (n1 @ n2)"
    using n1 n2 by simp_all
  then have "\<exists>new. sent (run_events (tn # tr) s) = sent s @ new \<and> list_all no_session new"
    by blast
  then show ?case using r d2 by simp
qed

lemma spawnQ_registry_without_session:
  "sessionId opts = None \<Longrightarrow>
   activeQProcesses (snd (spawnQ command opts sock w)) = activeQProcesses w"
  unfolding spawnQ_def
  by (simp add: Let_def split_def send_session_created_world_fields register_session_def
      spawn_fields process_images_registry)

text \<open>
  Claim C9. When the caller supplies no session identifier, \<open>spawnQ\<close> does not touch the
  registry and neither does any callback, whatever notifications arrive, so
  \<open>abortQSession\<close> finds no handle for this run. If the socket is open, the first message
  is \<open>session-created\<close> with the identifier \<open>q-session-\<close> followed by the clock reading;
  every later message of the run (\<open>q-output\<close>, \<open>q-error\<close>, \<open>q-complete\<close>) carries no
  session identifier.
\<close>

theorem run_without_session_id:
  assumes "sessionId opts = None"
  shows "activeQProcesses (snd (spawnQ command opts sock w)) = activeQProcesses w \<and>
     activeQProcesses (snd (run_events tr (spawnQ command opts sock w))) = activeQProcesses w \<and>
     (\<exists>rest. sent (run_events tr (spawnQ command opts sock w)) =
        (case sock of
           None \<Rightarrow> []
         | Some k \<Rightarrow>
             delivered k @
             (if readyState k = 1 \<and> \<not> send_throws k
              then [SessionCreated (''q-session-'' @ show_nat (clock w)) (clock w)]
              else [])) @ rest \<and>
        list_all no_session rest)"
proof -
  have c: "capturedSessionId (fst (spawnQ command opts sock w)) = None"
    using assms by (simp add: spawnQ_run_fields)
  have g: "session_or_fresh None (clock w) = ''q-session-'' @ show_nat (clock w)"
    by (simp add: session_or_fresh_def)
  have f: "sent (spawnQ command opts sock w) =
        (case sock of
           None \<Rightarrow> []
         | Some k \<Rightarrow>
             delivered k @
             (if readyState k = 1 \<and> \<not> send_throws k
              then [SessionCreated (''q-session-'' @ show_nat (clock w)) (clock w)]
              else []))"
    unfolding spawnQ_sent assms g ..
  note r0 = spawnQ_registry_without_session [OF assms, of command sock w]
  from run_events_without_session [OF c, of tr] obtain new where
    r: "activeQProcesses (snd (run_events tr (spawnQ command opts sock w))) =
        activeQProcesses (snd (spawnQ command opts sock w))"
    and n: "sent (run_events tr (spawnQ command opts sock w)) =
            sent (spawnQ command opts sock w) @ new"
    and l: "list_all no_session new"
    by (elim exE conjE) (rule that)
  have e: "\<exists>rest. sent (run_events tr (spawnQ command opts sock w)) =
        (case sock of
           None \<Rightarrow> []
         | Some k \<Rightarrow>
             delivered k @
             (if readyState k = 1 \<and> \<not> send_throws k
              then [SessionCreated (''q-session-'' @ show_nat (clock w)) (clock w)]
              else [])) @ rest \<and>
        list_all no_session rest"
    using n l unfolding f by (intro exI conjI)
  show ?thesis
    using r0 r e by simp
qed

theorem run_without_session_id_witness:
  "sessionId anonymous_options = None \<and>
   activeQProcesses (snd (spawnQ ''describe'' anonymous_options (Some open_socket) example_world)) =
     activeQProcesses example_world \<and>
   activeQProcesses (snd (run_events [(50, StdoutData ''hi''), (60, Close (Some 0))]
       (spawnQ ''describe'' anonymous_options (Some open_socket) example_world))) =
     activeQProcesses example_world \<and>
   (\<exists>rest. sent (run_events [(50, StdoutData ''hi''), (60, Close (Some 0))]
              (spawnQ ''describe'' anonymous_options (Some open_socket) example_world)) =
            SessionCreated ''q-session-42'' 42 # rest \<and> list_all no_session rest)"
proof -
  have h: "sessionId anonymous_options = None"
    by (simp add: anonymous_options_def)
  have n: "show_nat (clock example_world) = ''42''"
    by code_simp
  have k: "readyState open_socket = 1" "\<not> send_throws open_socket" "delivered open_socket = []"
    by (simp_all add: open_socket_def)
  have c: "clock example_world = 42"
    by (simp add: example_world_def)
  note T = run_without_session_id [OF h, of "''describe''" "Some open_socket" example_world
        "[(50, StdoutData ''hi''), (60, Close (Some 0))]"]
  note r1 = T [THEN conjunct1] and r2 = T [THEN conjunct2, THEN conjunct1]
    and r3 = T [THEN conjunct2, THEN conjunct2]
  from r3 obtain rest where "sent (run_events [(50, StdoutData ''hi''), (60, Close (Some 0))]
              (spawnQ ''describe'' anonymous_options (Some open_socket) example_world)) =
        (case Some open_socket of
           None \<Rightarrow> []
         | Some k \<Rightarrow>
             delivered k @
             (if readyState k = 1 \<and> \<not> send_throws k
              then [SessionCreated (''q-session-'' @ show_nat (clock example_world)) (clock example_world)]
              else [])) @ rest" "list_all no_session rest"
    by (elim exE conjE) (rule that)
  then have "sent (run_events [(50, StdoutData ''hi''), (60, Close (Some 0))]
              (spawnQ ''describe'' anonymous_options (Some open_socket) example_world)) =
            SessionCreated ''q-session-42'' 42 # rest \<and> list_all no_session rest"
    by (simp add: n k) (simp add: c)
  then have e: "\<exists>rest. sent (run_events [(50, StdoutData ''hi''), (60, Close (Some 0))]
              (spawnQ ''describe'' anonymous_options (Some open_socket) example_world)) =
            SessionCreated ''q-session-42'' 42 # rest \<and> list_all no_session rest"
    by (rule exI)
  show ?thesis
    apply (intro conjI)
       apply (rule h)
      apply (rule r1)
     apply (rule r2)
    apply (rule e)
    done
qed


subsection \<open>abortQSession without a registered handle\<close>

text \<open>
  Claim C8. A call of \<open>abortQSession\<close> with a session identifier that has no handle in the
  registry returns \<open>false\<close> and leaves the whole state as it was: the registry, every
  handle (so no signal is sent), the pending timers and the file system. Nothing is
  raised: on this path the function only reads the registry and writes a progress line.
\<close>

theorem abort_unregistered_is_noop:
  "activeQProcesses w sid = None \<Longrightarrow> abortQSession sid w = (False, w)"
  by (simp add: abortQSession_def)

theorem abort_unregistered_is_noop_witness:
  "activeQProcesses example_world ''s1'' = None \<and>
   abortQSession ''s1'' example_world = (False, example_world)"
proof -
  have h: "activeQProcesses example_world ''s1'' = None"
    by (simp add: example_world_def)
  show ?thesis
    using h abort_unregistered_is_noop [OF h] by simp
qed

subsection \<open>abortQSession on a running process\<close>

text \<open>
  With a handle in the registry whose \<open>killed\<close> is false, \<open>abortQSession\<close> returns \<open>true\<close>,
  removes the entry and sets one timer of 5000 ms.
\<close>

lemma abort_registered_returns_true:
  assumes "activeQProcesses w sid = Some pid" and "children w pid = Some c" and "\<not> killed c"
  shows "fst (abortQSession sid w)"
    and "activeQProcesses (snd (abortQSession sid w)) sid = None"
    and "timers (snd (abortQSession sid w)) = timers w @ [(5000, pid, sid)]"
  using assms by (simp_all add: abortQSession_def split_def)

text \<open>
  Once \<open>abortQSession\<close> has returned \<open>true\<close>, the timer's callback changes nothing: either
  \<open>SIGTERM\<close> was delivered, which set \<open>killed\<close>, or the process was already gone.
\<close>

lemma force_kill_after_abort:
  assumes "abortQSession sid w = (True, w')" and "activeQProcesses w sid = Some pid"
  shows "force_kill pid w' = w'"
proof -
  from assms obtain c where c: "children w pid = Some c" "\<not> killed c"
    by (auto simp: abortQSession_def split: option.splits if_splits)
  show ?thesis
  proof (cases "exited c")
    case True
    then show ?thesis
      using assms c by (auto simp: abortQSession_def force_kill_def kill_def)
  next
    case False
    then show ?thesis
      using assms c by (auto simp: abortQSession_def force_kill_def kill_def)
  qed
qed

text \<open>
  Claim C2 says that \<open>abortQSession\<close> on a session with a live handle removes the
  handle from the registry at once, returns \<open>true\<close>, and sends a forced termination if
  the process has not exited after 5 seconds. The code does the first two and not the
  third. For the running process of session \<open>s1\<close>, \<open>abortQSession\<close> returns \<open>true\<close>,
  removes the handle from the registry, sends \<open>SIGTERM\<close> and sets the timer of 5000 ms.
  The timer's callback sends \<open>SIGKILL\<close> only if \<open>killed\<close> is false, and \<open>killed\<close> was set
  when \<open>SIGTERM\<close> was delivered: the process has not exited when the timer fires, and
  no \<open>SIGKILL\<close> is sent.
\<close>

theorem abort_never_escalates_to_SIGKILL:
  "activeQProcesses (snd (spawnQ ''describe'' example_options (Some open_socket) example_world))
     ''s1'' = Some 0 \<and>
   map_option exited
    (children (snd (spawnQ ''describe'' example_options (Some open_socket) example_world)) 0) =
     Some False \<and>
   fst (abortQSession ''s1''
         (snd (spawnQ ''describe'' example_options (Some open_socket) example_world))) \<and>
   activeQProcesses (snd (abortQSession ''s1''
         (snd (spawnQ ''describe'' example_options (Some open_socket) example_world)))) ''s1'' = None \<and>
   timers (snd (abortQSession ''s1''
         (snd (spawnQ ''describe'' example_options (Some open_socket) example_world)))) =
     [(5000, 0, ''s1'')] \<and>
   signals_of 0 (snd (abortQSession ''s1''
         (snd (spawnQ ''describe'' example_options (Some open_socket) example_world)))) = [SIGTERM] \<and>
   map_option exited
    (children (fire_timer (snd (abortQSession ''s1''
         (snd (spawnQ ''describe'' example_options (Some open_socket) example_world))))) 0) =
     Some False \<and>
   signals_of 0 (fire_timer (snd (abortQSession ''s1''
         (snd (spawnQ ''describe'' example_options (Some open_socket) example_world))))) = [SIGTERM]"
  by code_simp

end
